theory Spec2Isabelle
  imports Complex_Main "HOL-Library.Monad_Syntax"
begin

section \<open>Conventions\<close>

text \<open>
  The numeric code of the repository works on numpy arrays of floating-point numbers.
  The embedding idealises floats as real numbers: rounding and overflow are not modelled.
  What is modelled of IEEE arithmetic are the domain errors that numpy answers with NaN or
  an infinity instead of raising (square root of a negative number, logarithm of a
  non-positive number, division by zero, the mean of an empty array): such a value is
  \<open>None\<close> in a \<open>real option\<close>, and it is absorbing, as NaN is.

  Python exceptions are values of the type \<open>error\<close>; a function that can raise returns
  \<open>error + 'a\<close>, with \<open>Inl\<close> for the exception.
\<close>

datatype error = ValueError | IndexError | UnboundLocalError | LinAlgError

section \<open>Cost ramps (\<open>gps/algorithm/cost/cost_utils.py\<close>)\<close>

definition RAMP_CONSTANT :: int where "RAMP_CONSTANT = 1"
definition RAMP_LINEAR :: int where "RAMP_LINEAR = 2"
definition RAMP_QUADRATIC :: int where "RAMP_QUADRATIC = 3"
definition RAMP_FINAL_ONLY :: int where "RAMP_FINAL_ONLY = 4"

text \<open>Python indexing of a one-dimensional array: a negative index counts from the end,
  an index out of range raises IndexError.\<close>

definition py_index :: "'a list \<Rightarrow> int \<Rightarrow> error + nat" where
  "py_index xs i =
     (let n = int (length xs); j = (if i < 0 then n + i else i)
      in if 0 \<le> j \<and> j < n then Inr (nat j) else Inl IndexError)"

definition get_item :: "'a list \<Rightarrow> int \<Rightarrow> error + 'a" where
  "get_item xs i = (case py_index xs i of Inl e \<Rightarrow> Inl e | Inr j \<Rightarrow> Inr (xs ! j))"

definition set_item :: "'a list \<Rightarrow> int \<Rightarrow> 'a \<Rightarrow> error + 'a list" where
  "set_item xs i v = (case py_index xs i of Inl e \<Rightarrow> Inl e | Inr j \<Rightarrow> Inr (xs[j := v]))"

text \<open>The \<open>if\<close>/\<open>elif\<close> chain of \<open>get_ramp_multiplier\<close>: the ramp \<open>wpm\<close> before the
  weight of the last step is applied. \<open>T\<close> is the length of the arrays that \<open>np.ones\<close>,
  \<open>np.arange\<close> and \<open>np.zeros\<close> build.\<close>

definition ramp_wpm :: "int \<Rightarrow> nat \<Rightarrow> error + real list" where
  "ramp_wpm ramp_option T =
     (if ramp_option = RAMP_CONSTANT then Inr (replicate T 1)
      else if ramp_option = RAMP_LINEAR then
        Inr (map (\<lambda>t. (real t + 1) / real T) [0..<T])
      else if ramp_option = RAMP_QUADRATIC then
        Inr (map (\<lambda>t. ((real t + 1) / real T)\<^sup>2) [0..<T])
      else if ramp_option = RAMP_FINAL_ONLY then
        set_item (replicate T 0) (int T - 1) 1
      else Inl ValueError)"

text \<open>\<open>get_ramp_multiplier\<close>: the ramp, then \<open>wpm[-1] *= wp_final_multiplier\<close>.\<close>

definition get_ramp_multiplier :: "int \<Rightarrow> nat \<Rightarrow> real \<Rightarrow> error + real list" where
  "get_ramp_multiplier ramp_option T wp_final_multiplier =
     (case ramp_wpm ramp_option T of
        Inl e \<Rightarrow> Inl e
      | Inr wpm \<Rightarrow>
          (case get_item wpm (- 1) of
             Inl e \<Rightarrow> Inl e
           | Inr x \<Rightarrow> set_item wpm (- 1) (x * wp_final_multiplier)))"

section \<open>Step adjustment (\<open>AlgorithmMDGPS._stepadjust\<close>)\<close>

text \<open>
  What \<open>_stepadjust\<close> reads of one condition of \<open>self.prev\<close> or \<open>self.cur\<close>: the
  controller \<open>pol_info.traj_distr()\<close>, the controller \<open>new_traj_distr\<close>, the dynamics and
  cost information \<open>traj_info\<close>, and the sample costs \<open>cs\<close>, an \<open>N \<times> T\<close> array with one
  row for each sample. The controllers and \<open>traj_info\<close> are only handed on to the
  trajectory optimiser, so their types are left open.
\<close>

record ('traj, 'info) iteration_data =
  pol_info_traj_distr :: 'traj
  new_traj_distr :: 'traj
  traj_info :: 'info
  cs :: "real list list"

text \<open>\<open>a.mean()\<close> of a one-dimensional array: NaN for the empty array and for an array
  that holds a NaN.\<close>

definition np_mean :: "real option list \<Rightarrow> real option" where
  "np_mean xs =
     (if xs = [] then None
      else case those xs of None \<Rightarrow> None | Some ys \<Rightarrow> Some (sum_list ys / real (length ys)))"

text \<open>\<open>cs.mean(axis=0).sum()\<close>: the mean over the samples at each time step, summed over
  the time steps. An array without samples has NaN means.\<close>

definition cs_mean_sum :: "real list list \<Rightarrow> real option" where
  "cs_mean_sum c =
     (if c = [] then None
      else Some (sum_list (map (\<lambda>col. sum_list col / real (length c)) (transpose c))))"

definition nf_minus :: "real option \<Rightarrow> real option \<Rightarrow> real option" where
  "nf_minus a b = (case (a, b) of (Some x, Some y) \<Rightarrow> Some (x - y) | _ \<Rightarrow> None)"

text \<open>The entries of the arrays \<open>prev_laplace\<close>/\<open>cur_laplace\<close>, \<open>prev_predicted\<close> and
  \<open>prev_mc\<close>/\<open>cur_mc\<close> for one condition. \<open>estimate_cost\<close> is the method of the
  trajectory optimiser \<open>self.traj_opt\<close>, a parameter of the model.\<close>

definition laplace_cost :: "('traj \<Rightarrow> 'info \<Rightarrow> real list) \<Rightarrow> ('traj, 'info) iteration_data \<Rightarrow> real" where
  "laplace_cost estimate_cost c = sum_list (estimate_cost (pol_info_traj_distr c) (traj_info c))"

definition predicted_cost :: "('traj \<Rightarrow> 'info \<Rightarrow> real list) \<Rightarrow> ('traj, 'info) iteration_data \<Rightarrow> real" where
  "predicted_cost estimate_cost c = sum_list (estimate_cost (new_traj_distr c) (traj_info c))"

definition mc_cost :: "('traj, 'info) iteration_data \<Rightarrow> real option" where
  "mc_cost c = cs_mean_sum (cs c)"

text \<open>Lines 216 to 226: the means over the conditions and the pair
  \<open>(predicted_impr, actual_impr)\<close>. With a \<open>step_rule\<close> other than \<open>'laplace'\<close> and
  \<open>'mc'\<close> neither branch assigns the two names: the result is \<open>None\<close>.\<close>

definition improvements ::
  "('traj \<Rightarrow> 'info \<Rightarrow> real list) \<Rightarrow> string \<Rightarrow> ('traj, 'info) iteration_data list
     \<Rightarrow> ('traj, 'info) iteration_data list \<Rightarrow> (real option \<times> real option) option" where
  "improvements estimate_cost step_rule prev cur =
     (let prev_laplace = np_mean (map (\<lambda>p. Some (laplace_cost estimate_cost p)) prev);
          prev_mc = np_mean (map mc_cost prev);
          prev_predicted = np_mean (map (\<lambda>p. Some (predicted_cost estimate_cost p)) prev);
          cur_laplace = np_mean (map (\<lambda>c. Some (laplace_cost estimate_cost c)) cur);
          cur_mc = np_mean (map mc_cost cur)
      in if step_rule = ''laplace'' then
           Some (nf_minus prev_laplace prev_predicted, nf_minus prev_laplace cur_laplace)
         else if step_rule = ''mc'' then
           Some (nf_minus prev_mc prev_predicted, nf_minus prev_mc cur_mc)
         else None)"

text \<open>The loop of lines 233 and 234, as the list of the arguments of the successive calls
  \<open>self._set_new_mult(predicted_impr, actual_impr, m)\<close>. With the two names unassigned
  the first call raises UnboundLocalError.\<close>

definition stepadjust_calls ::
  "('traj \<Rightarrow> 'info \<Rightarrow> real list) \<Rightarrow> string \<Rightarrow> ('traj, 'info) iteration_data list
     \<Rightarrow> ('traj, 'info) iteration_data list \<Rightarrow> error + (real option \<times> real option \<times> nat) list" where
  "stepadjust_calls estimate_cost step_rule prev cur =
     (case improvements estimate_cost step_rule prev cur of
        Some (predicted_impr, actual_impr) \<Rightarrow>
          Inr (map (\<lambda>m. (predicted_impr, actual_impr, m)) [0..<length cur])
      | None \<Rightarrow> if cur = [] then Inr [] else Inl UnboundLocalError)"

text \<open>\<open>_stepadjust\<close> as a state transformer. \<open>_set_new_mult\<close> is a method of the base
  class \<open>Algorithm\<close>; it is a parameter here, and \<open>'s\<close> is the state it updates (the step
  multipliers \<open>self.cur[m].step_mult\<close>).\<close>

definition stepadjust ::
  "(real option \<Rightarrow> real option \<Rightarrow> nat \<Rightarrow> 's \<Rightarrow> 's) \<Rightarrow> ('traj \<Rightarrow> 'info \<Rightarrow> real list) \<Rightarrow> string
     \<Rightarrow> ('traj, 'info) iteration_data list \<Rightarrow> ('traj, 'info) iteration_data list \<Rightarrow> 's \<Rightarrow> error + 's" where
  "stepadjust set_new_mult estimate_cost step_rule prev cur s =
     (case stepadjust_calls estimate_cost step_rule prev cur of
        Inl e \<Rightarrow> Inl e
      | Inr calls \<Rightarrow> Inr (fold (\<lambda>(predicted_impr, actual_impr, m). set_new_mult predicted_impr actual_impr m) calls s))"

text \<open>Example data: a trajectory optimiser whose cost estimate of a controller is the
  controller itself, read as a vector of costs for each time step, and one condition with
  given estimates and sample costs.\<close>

definition est_id :: "real list \<Rightarrow> unit \<Rightarrow> real list" where
  "est_id traj info = traj"

definition cond :: "real list \<Rightarrow> real list \<Rightarrow> real list list \<Rightarrow> (real list, unit) iteration_data" where
  "cond nn lg c = \<lparr>pol_info_traj_distr = nn, new_traj_distr = lg, traj_info = (), cs = c\<rparr>"

section \<open>Penalty shapes (\<open>gps/algorithm/cost/cost_utils.py\<close>)\<close>

text \<open>
  The four evaluation functions work on arrays \<open>wp\<close> and \<open>d\<close> of shape \<open>T \<times> D\<close>, \<open>Jd\<close> of
  shape \<open>T \<times> D \<times> Dx\<close> and \<open>Jdd\<close> of shape \<open>T \<times> D \<times> Dx \<times> Dx\<close>. An array is modelled by its
  entries, a function of the indices; the extent \<open>D\<close> of the axis that the functions sum
  over is an argument. Every operation of the four functions is elementwise along the
  time axis, so the results are given for each time step \<open>t\<close> (and the indices \<open>a\<close>, \<open>b\<close>
  of the state axis).

  \<open>np.sqrt\<close>, \<open>np.log\<close> and the division answer an argument outside their domain with NaN
  or an infinity: \<open>None\<close>.
\<close>

definition np_sqrt :: "real \<Rightarrow> real option" where
  "np_sqrt x = (if x < 0 then None else Some (sqrt x))"

definition np_log :: "real \<Rightarrow> real option" where
  "np_log x = (if x \<le> 0 then None else Some (ln x))"

definition np_div :: "real \<Rightarrow> real \<Rightarrow> real option" where
  "np_div x y = (if y = 0 then None else Some (x / y))"

text \<open>\<open>np.sum\<close> along an axis of extent \<open>n\<close>, of entries that may be NaN.\<close>

fun nf_sum :: "nat \<Rightarrow> (nat \<Rightarrow> real option) \<Rightarrow> real option" where
  "nf_sum 0 f = Some 0"
| "nf_sum (Suc n) f = do { s \<leftarrow> nf_sum n f; x \<leftarrow> f n; Some (s + x) }"

definition eye :: "nat \<Rightarrow> nat \<Rightarrow> real" where
  "eye i j = (if i = j then 1 else 0)"

text \<open>
  The last lines are the same in the four functions: the gradient
  \<open>lx = np.sum(Jd * np.expand_dims(d1, axis=2), axis=1)\<close>, the term
  \<open>sec = np.sum(d1_expand * Jdd, axis=1)\<close> and the Hessian
  \<open>lxx = np.sum(np.sum(Jd_expand_1 * Jd_expand_2 * d2_expand, axis=1), axis=1)\<close>
  followed by \<open>lxx += 0.5 * sec + 0.5 * np.transpose(sec, [0, 2, 1])\<close>.
  The entry \<open>[t, i, j, a, b]\<close> of the product is \<open>Jd[t, i, a] * Jd[t, j, b] * d2[t, i, j]\<close>;
  the inner sum runs over \<open>i\<close>, the outer one over \<open>j\<close>.
\<close>

definition chain_lx ::
  "nat \<Rightarrow> (nat \<Rightarrow> nat \<Rightarrow> nat \<Rightarrow> real) \<Rightarrow> (nat \<Rightarrow> nat \<Rightarrow> real option) \<Rightarrow> nat \<Rightarrow> nat \<Rightarrow> real option" where
  "chain_lx D Jd d1 t a = nf_sum D (\<lambda>i. do { v \<leftarrow> d1 t i; Some (Jd t i a * v) })"

definition chain_sec ::
  "nat \<Rightarrow> (nat \<Rightarrow> nat \<Rightarrow> nat \<Rightarrow> nat \<Rightarrow> real) \<Rightarrow> (nat \<Rightarrow> nat \<Rightarrow> real option)
     \<Rightarrow> nat \<Rightarrow> nat \<Rightarrow> nat \<Rightarrow> real option" where
  "chain_sec D Jdd d1 t a b = nf_sum D (\<lambda>i. do { v \<leftarrow> d1 t i; Some (v * Jdd t i a b) })"

definition chain_lxx ::
  "nat \<Rightarrow> (nat \<Rightarrow> nat \<Rightarrow> nat \<Rightarrow> real) \<Rightarrow> (nat \<Rightarrow> nat \<Rightarrow> nat \<Rightarrow> nat \<Rightarrow> real)
     \<Rightarrow> (nat \<Rightarrow> nat \<Rightarrow> real option) \<Rightarrow> (nat \<Rightarrow> nat \<Rightarrow> nat \<Rightarrow> real option)
     \<Rightarrow> nat \<Rightarrow> nat \<Rightarrow> nat \<Rightarrow> real option" where
  "chain_lxx D Jd Jdd d1 d2 t a b =
     do { q \<leftarrow> nf_sum D (\<lambda>j. nf_sum D (\<lambda>i. do { v \<leftarrow> d2 t i j; Some (Jd t i a * Jd t j b * v) }));
          s \<leftarrow> chain_sec D Jdd d1 t a b;
          s' \<leftarrow> chain_sec D Jdd d1 t b a;
          Some (q + (0.5 * s + 0.5 * s')) }"

subsection \<open>\<open>evall1l2term\<close>\<close>

text \<open>\<open>np.sqrt(alpha + np.sum(dscl**2, axis=1))\<close>, with \<open>dscl = d * wp\<close>; the source
  computes it for \<open>l\<close>, for \<open>d1\<close> and as \<open>psq\<close>.\<close>

definition l1l2_psq :: "(nat \<Rightarrow> nat \<Rightarrow> real) \<Rightarrow> (nat \<Rightarrow> nat \<Rightarrow> real) \<Rightarrow> nat \<Rightarrow> real \<Rightarrow> nat \<Rightarrow> real option" where
  "l1l2_psq wp d D alpha t = np_sqrt (alpha + (\<Sum>i<D. (d t i * wp t i)\<^sup>2))"

text \<open>\<open>0.5 * np.sum(dsclsq**2, axis=1) * l2\<close>, with \<open>dsclsq = d * np.sqrt(wp)\<close>; the
  first summand of \<open>l\<close> in \<open>evall1l2term\<close> and in \<open>evallogl2term\<close>.\<close>

definition l2_part :: "(nat \<Rightarrow> nat \<Rightarrow> real) \<Rightarrow> (nat \<Rightarrow> nat \<Rightarrow> real) \<Rightarrow> nat \<Rightarrow> real \<Rightarrow> nat \<Rightarrow> real option" where
  "l2_part wp d D l2 t =
     do { s \<leftarrow> nf_sum D (\<lambda>i. do { sqrtwp \<leftarrow> np_sqrt (wp t i); Some ((d t i * sqrtwp)\<^sup>2) });
          Some (0.5 * s * l2) }"

definition evall1l2term_l ::
  "(nat \<Rightarrow> nat \<Rightarrow> real) \<Rightarrow> (nat \<Rightarrow> nat \<Rightarrow> real) \<Rightarrow> nat \<Rightarrow> real \<Rightarrow> real \<Rightarrow> real \<Rightarrow> nat \<Rightarrow> real option" where
  "evall1l2term_l wp d D l1 l2 alpha t =
     do { q \<leftarrow> l2_part wp d D l2 t;
          r \<leftarrow> l1l2_psq wp d D alpha t;
          Some (q + r * l1) }"

definition evall1l2term_d1 ::
  "(nat \<Rightarrow> nat \<Rightarrow> real) \<Rightarrow> (nat \<Rightarrow> nat \<Rightarrow> real) \<Rightarrow> nat \<Rightarrow> real \<Rightarrow> real \<Rightarrow> real \<Rightarrow> nat \<Rightarrow> nat \<Rightarrow> real option" where
  "evall1l2term_d1 wp d D l1 l2 alpha t i =
     do { r \<leftarrow> l1l2_psq wp d D alpha t;
          q \<leftarrow> np_div (d t i * (wp t i)\<^sup>2) r;
          Some (d t i * wp t i * l2 + q * l1) }"

definition evall1l2term_d2 ::
  "(nat \<Rightarrow> nat \<Rightarrow> real) \<Rightarrow> (nat \<Rightarrow> nat \<Rightarrow> real) \<Rightarrow> nat \<Rightarrow> real \<Rightarrow> real \<Rightarrow> real
     \<Rightarrow> nat \<Rightarrow> nat \<Rightarrow> nat \<Rightarrow> real option" where
  "evall1l2term_d2 wp d D l1 l2 alpha t i j =
     do { psq \<leftarrow> l1l2_psq wp d D alpha t;
          q1 \<leftarrow> np_div ((wp t j)\<^sup>2) psq;
          q2 \<leftarrow> np_div ((d t j * (wp t j)\<^sup>2) * (d t i * (wp t i)\<^sup>2)) (psq ^ 3);
          Some (l1 * (eye i j * q1 - q2) + l2 * (wp t i * eye i j)) }"

definition evall1l2term_lx where
  "evall1l2term_lx wp d Jd D l1 l2 alpha = chain_lx D Jd (evall1l2term_d1 wp d D l1 l2 alpha)"

definition evall1l2term_lxx where
  "evall1l2term_lxx wp d Jd Jdd D l1 l2 alpha =
     chain_lxx D Jd Jdd (evall1l2term_d1 wp d D l1 l2 alpha) (evall1l2term_d2 wp d D l1 l2 alpha)"

definition evall1l2term where
  "evall1l2term wp d Jd Jdd D l1 l2 alpha =
     (evall1l2term_l wp d D l1 l2 alpha, evall1l2term_lx wp d Jd D l1 l2 alpha,
      evall1l2term_lxx wp d Jd Jdd D l1 l2 alpha)"

subsection \<open>\<open>evallogl2term\<close>\<close>

text \<open>\<open>alpha + np.sum(dscl**2, axis=1)\<close>, the argument of the logarithm, the divisor
  in \<open>d1\<close> and \<open>psq\<close>.\<close>

definition logl2_psq :: "(nat \<Rightarrow> nat \<Rightarrow> real) \<Rightarrow> (nat \<Rightarrow> nat \<Rightarrow> real) \<Rightarrow> nat \<Rightarrow> real \<Rightarrow> nat \<Rightarrow> real" where
  "logl2_psq wp d D alpha t = alpha + (\<Sum>i<D. (d t i * wp t i)\<^sup>2)"

definition evallogl2term_l ::
  "(nat \<Rightarrow> nat \<Rightarrow> real) \<Rightarrow> (nat \<Rightarrow> nat \<Rightarrow> real) \<Rightarrow> nat \<Rightarrow> real \<Rightarrow> real \<Rightarrow> real \<Rightarrow> nat \<Rightarrow> real option" where
  "evallogl2term_l wp d D l1 l2 alpha t =
     do { q \<leftarrow> l2_part wp d D l2 t;
          r \<leftarrow> np_log (logl2_psq wp d D alpha t);
          Some (q + 0.5 * r * l1) }"

definition evallogl2term_d1 ::
  "(nat \<Rightarrow> nat \<Rightarrow> real) \<Rightarrow> (nat \<Rightarrow> nat \<Rightarrow> real) \<Rightarrow> nat \<Rightarrow> real \<Rightarrow> real \<Rightarrow> real \<Rightarrow> nat \<Rightarrow> nat \<Rightarrow> real option" where
  "evallogl2term_d1 wp d D l1 l2 alpha t i =
     do { q \<leftarrow> np_div (d t i * (wp t i)\<^sup>2) (logl2_psq wp d D alpha t);
          Some (d t i * wp t i * l2 + q * l1) }"

definition evallogl2term_d2 ::
  "(nat \<Rightarrow> nat \<Rightarrow> real) \<Rightarrow> (nat \<Rightarrow> nat \<Rightarrow> real) \<Rightarrow> nat \<Rightarrow> real \<Rightarrow> real \<Rightarrow> real
     \<Rightarrow> nat \<Rightarrow> nat \<Rightarrow> nat \<Rightarrow> real option" where
  "evallogl2term_d2 wp d D l1 l2 alpha t i j =
     do { q1 \<leftarrow> np_div ((wp t j)\<^sup>2) (logl2_psq wp d D alpha t);
          q2 \<leftarrow> np_div ((d t j * (wp t j)\<^sup>2) * (d t i * (wp t i)\<^sup>2)) ((logl2_psq wp d D alpha t)\<^sup>2);
          Some (l1 * (eye i j * q1 - q2) + l2 * (wp t i * eye i j)) }"

definition evallogl2term_lx where
  "evallogl2term_lx wp d Jd D l1 l2 alpha = chain_lx D Jd (evallogl2term_d1 wp d D l1 l2 alpha)"

definition evallogl2term_lxx where
  "evallogl2term_lxx wp d Jd Jdd D l1 l2 alpha =
     chain_lxx D Jd Jdd (evallogl2term_d1 wp d D l1 l2 alpha) (evallogl2term_d2 wp d D l1 l2 alpha)"

definition evallogl2term where
  "evallogl2term wp d Jd Jdd D l1 l2 alpha =
     (evallogl2term_l wp d D l1 l2 alpha, evallogl2term_lx wp d Jd D l1 l2 alpha,
      evallogl2term_lxx wp d Jd Jdd D l1 l2 alpha)"

subsection \<open>\<open>evalasymetric\<close>\<close>

text \<open>No operation of \<open>evalasymetric\<close> and of \<open>evalexp\<close> has a domain error; the
  intermediate arrays are real, and the results are wrapped in \<open>Some\<close> where the shared
  last lines take them.\<close>

definition asym_skew :: "(nat \<Rightarrow> nat \<Rightarrow> real) \<Rightarrow> (nat \<Rightarrow> nat \<Rightarrow> real) \<Rightarrow> real \<Rightarrow> nat \<Rightarrow> nat \<Rightarrow> real" where
  "asym_skew wp d alpha t i = (wp t i)\<^sup>2 * (sgn (d t i) + alpha)\<^sup>2"

definition evalasymetric_l :: "(nat \<Rightarrow> nat \<Rightarrow> real) \<Rightarrow> (nat \<Rightarrow> nat \<Rightarrow> real) \<Rightarrow> nat \<Rightarrow> real \<Rightarrow> nat \<Rightarrow> real option" where
  "evalasymetric_l wp d D alpha t = Some (0.5 * (\<Sum>i<D. (d t i)\<^sup>2 * asym_skew wp d alpha t i))"

definition evalasymetric_d1 :: "(nat \<Rightarrow> nat \<Rightarrow> real) \<Rightarrow> (nat \<Rightarrow> nat \<Rightarrow> real) \<Rightarrow> real \<Rightarrow> nat \<Rightarrow> nat \<Rightarrow> real option" where
  "evalasymetric_d1 wp d alpha t i = Some (d t i * asym_skew wp d alpha t i)"

definition evalasymetric_d2 ::
  "(nat \<Rightarrow> nat \<Rightarrow> real) \<Rightarrow> (nat \<Rightarrow> nat \<Rightarrow> real) \<Rightarrow> real \<Rightarrow> nat \<Rightarrow> nat \<Rightarrow> nat \<Rightarrow> real option" where
  "evalasymetric_d2 wp d alpha t i j = Some (asym_skew wp d alpha t i * eye i j)"

definition evalasymetric_lx where
  "evalasymetric_lx wp d Jd D alpha = chain_lx D Jd (evalasymetric_d1 wp d alpha)"

definition evalasymetric_lxx where
  "evalasymetric_lxx wp d Jd Jdd D alpha =
     chain_lxx D Jd Jdd (evalasymetric_d1 wp d alpha) (evalasymetric_d2 wp d alpha)"

definition evalasymetric where
  "evalasymetric wp d Jd Jdd D alpha =
     (evalasymetric_l wp d D alpha, evalasymetric_lx wp d Jd D alpha,
      evalasymetric_lxx wp d Jd Jdd D alpha)"

subsection \<open>\<open>evalexp\<close>\<close>

text \<open>\<open>ex = np.clip(np.exp(d * wp), 0, 1)\<close>.\<close>

definition exp_ex :: "(nat \<Rightarrow> nat \<Rightarrow> real) \<Rightarrow> (nat \<Rightarrow> nat \<Rightarrow> real) \<Rightarrow> nat \<Rightarrow> nat \<Rightarrow> real" where
  "exp_ex wp d t i = min 1 (max 0 (exp (d t i * wp t i)))"

definition evalexp_l :: "(nat \<Rightarrow> nat \<Rightarrow> real) \<Rightarrow> (nat \<Rightarrow> nat \<Rightarrow> real) \<Rightarrow> nat \<Rightarrow> nat \<Rightarrow> real option" where
  "evalexp_l wp d D t = Some (\<Sum>i<D. exp_ex wp d t i)"

definition evalexp_d1 :: "(nat \<Rightarrow> nat \<Rightarrow> real) \<Rightarrow> (nat \<Rightarrow> nat \<Rightarrow> real) \<Rightarrow> nat \<Rightarrow> nat \<Rightarrow> real option" where
  "evalexp_d1 wp d t i = Some (- wp t i * exp_ex wp d t i)"

definition evalexp_d2 :: "(nat \<Rightarrow> nat \<Rightarrow> real) \<Rightarrow> (nat \<Rightarrow> nat \<Rightarrow> real) \<Rightarrow> nat \<Rightarrow> nat \<Rightarrow> nat \<Rightarrow> real option" where
  "evalexp_d2 wp d t i j = Some ((wp t i)\<^sup>2 * exp_ex wp d t i * eye i j)"

definition evalexp_lx where
  "evalexp_lx wp d Jd D = chain_lx D Jd (evalexp_d1 wp d)"

definition evalexp_lxx where
  "evalexp_lxx wp d Jd Jdd D = chain_lxx D Jd Jdd (evalexp_d1 wp d) (evalexp_d2 wp d)"

definition evalexp where
  "evalexp wp d Jd Jdd D = (evalexp_l wp d D, evalexp_lx wp d Jd D, evalexp_lxx wp d Jd Jdd D)"

section \<open>Cost fusion (\<open>AlgorithmMDGPS.compute_costs\<close>)\<close>

text \<open>
  Matrices and vectors are modelled by their entries, as the arrays of the penalty shapes
  are; the operations take the extents they need. \<open>dot n A B\<close> is \<open>A.dot(B)\<close> for an
  \<open>A\<close> with \<open>n\<close> columns and a \<open>B\<close> with \<open>n\<close> rows, \<open>mT A\<close> is \<open>A.T\<close>; \<open>hstack c A B\<close> puts
  \<open>B\<close> to the right of the \<open>c\<close> columns of \<open>A\<close>, \<open>vstack r A B\<close> puts \<open>B\<close> below the \<open>r\<close> rows of
  \<open>A\<close>, \<open>concatenate n u v\<close> appends \<open>v\<close> to the \<open>n\<close> entries of \<open>u\<close>.
\<close>

type_synonym mat = "nat \<Rightarrow> nat \<Rightarrow> real"
type_synonym vec = "nat \<Rightarrow> real"

definition dot :: "nat \<Rightarrow> mat \<Rightarrow> mat \<Rightarrow> mat" where
  "dot n A B = (\<lambda>i j. \<Sum>k<n. A i k * B k j)"

definition dotv :: "nat \<Rightarrow> mat \<Rightarrow> vec \<Rightarrow> vec" where
  "dotv n A v = (\<lambda>i. \<Sum>k<n. A i k * v k)"

definition mT :: "mat \<Rightarrow> mat" where
  "mT A = (\<lambda>i j. A j i)"

definition hstack :: "nat \<Rightarrow> mat \<Rightarrow> mat \<Rightarrow> mat" where
  "hstack c A B = (\<lambda>i j. if j < c then A i j else B i (j - c))"

definition vstack :: "nat \<Rightarrow> mat \<Rightarrow> mat \<Rightarrow> mat" where
  "vstack r A B = (\<lambda>i j. if i < r then A i j else B (i - r) j)"

definition concatenate :: "nat \<Rightarrow> vec \<Rightarrow> vec \<Rightarrow> vec" where
  "concatenate n u v = (\<lambda>i. if i < n then u i else v (i - n))"

text \<open>\<open>np.linalg.norm(A, np.inf)\<close> of a matrix with \<open>r\<close> rows and \<open>c\<close> columns: the largest
  absolute row sum (\<open>r \<ge> 1\<close>; numpy raises for a matrix without rows).\<close>

definition norm_inf :: "nat \<Rightarrow> nat \<Rightarrow> mat \<Rightarrow> real" where
  "norm_inf r c A = Max ((\<lambda>i. \<Sum>j<c. \<bar>A i j\<bar>) ` {..<r})"

text \<open>
  Lines 251 to 263 of the body of the loop over \<open>t\<close>, for the arrays at time step \<open>t\<close>
  and the matrix \<open>inv_pol_S\<close>: the KL terms \<open>PKLm[t]\<close> and \<open>PKLv[t]\<close> and the fused
  \<open>fCm[t]\<close> and \<open>fcv[t]\<close>. The entries of the results are divided by \<open>eta\<close>, which gives NaN
  or an infinity for \<open>eta = 0\<close>. The results have the shapes of \<open>Cm[t]\<close> and \<open>cv[t]\<close>,
  \<open>(dX + dU) \<times> (dX + dU)\<close> and \<open>dX + dU\<close>; they are returned as lists of rows and of entries.
\<close>

definition kl_fuse ::
  "real \<Rightarrow> nat \<Rightarrow> nat \<Rightarrow> mat \<Rightarrow> vec \<Rightarrow> mat \<Rightarrow> mat \<Rightarrow> vec \<Rightarrow> mat \<Rightarrow> real
     \<Rightarrow> real option list list \<times> real option list" where
  "kl_fuse K_regularization dX dU Cm_t cv_t K_t KB kB inv_pol_S eta =
     (let PKLm = vstack dX
            (hstack dX (dot dU (dot dU (mT KB) inv_pol_S) KB)
               (\<lambda>i j. - dot dU (mT KB) inv_pol_S i j))
            (hstack dX (\<lambda>i j. - dot dU inv_pol_S KB i j) inv_pol_S);
          PKLv = concatenate dX (dotv dU (dot dU (mT KB) inv_pol_S) kB)
            (\<lambda>i. - dotv dU inv_pol_S kB i)
      in (map (\<lambda>i. map (\<lambda>j.
                 np_div (Cm_t i j + K_regularization * norm_inf dU dX K_t * eye i j
                         + PKLm i j * eta) eta) [0..<dX + dU]) [0..<dX + dU],
          map (\<lambda>i. np_div (cv_t i + PKLv i * eta) eta) [0..<dX + dU]))"

text \<open>
  The body of the loop over \<open>t\<close> (lines 247 to 263). \<open>solve\<close> stands for
  \<open>np.linalg.solve\<close>, a parameter of the model: it returns a matrix or raises
  LinAlgError. \<open>inv_pol_S\<close> is the result of the two nested calls of lines 248 to 250.
\<close>

definition compute_costs_step ::
  "(mat \<Rightarrow> mat \<Rightarrow> error + mat) \<Rightarrow> real \<Rightarrow> nat \<Rightarrow> nat \<Rightarrow> mat \<Rightarrow> vec \<Rightarrow> mat \<Rightarrow> mat \<Rightarrow> mat \<Rightarrow> vec \<Rightarrow> real
     \<Rightarrow> error + (real option list list \<times> real option list)" where
  "compute_costs_step solve K_regularization dX dU Cm_t cv_t K_t chol_pol_S_t KB kB eta =
     (case solve (mT chol_pol_S_t) eye of
        Inl e \<Rightarrow> Inl e
      | Inr Y \<Rightarrow>
          (case solve chol_pol_S_t Y of
             Inl e \<Rightarrow> Inl e
           | Inr inv_pol_S \<Rightarrow>
               Inr (kl_fuse K_regularization dX dU Cm_t cv_t K_t KB kB inv_pol_S eta)))"

text \<open>The loop \<open>for t in range(T)\<close>: an exception at one time step ends it.\<close>

fun compute_costs_loop :: "(nat \<Rightarrow> error + 'a) \<Rightarrow> nat list \<Rightarrow> error + 'a list" where
  "compute_costs_loop step [] = Inr []"
| "compute_costs_loop step (t # ts) =
     (case step t of
        Inl e \<Rightarrow> Inl e
      | Inr r \<Rightarrow> (case compute_costs_loop step ts of Inl e \<Rightarrow> Inl e | Inr rs \<Rightarrow> Inr (r # rs)))"

text \<open>\<open>compute_costs(m, eta)\<close>, for the arrays of condition \<open>m\<close>: \<open>Cm\<close>, \<open>cv\<close> of
  \<open>traj_info\<close>, \<open>K\<close> of \<open>traj_distr\<close> (with its \<open>T\<close>, \<open>dX\<close>, \<open>dU\<close>) and \<open>chol_pol_S\<close>,
  \<open>pol_K\<close>, \<open>pol_k\<close> of \<open>pol_info\<close>, all indexed by the time step first. It returns
  \<open>(fCm, fcv)\<close>.\<close>

definition compute_costs ::
  "(mat \<Rightarrow> mat \<Rightarrow> error + mat) \<Rightarrow> real \<Rightarrow> nat \<Rightarrow> nat \<Rightarrow> nat \<Rightarrow> (nat \<Rightarrow> mat) \<Rightarrow> (nat \<Rightarrow> vec) \<Rightarrow> (nat \<Rightarrow> mat)
     \<Rightarrow> (nat \<Rightarrow> mat) \<Rightarrow> (nat \<Rightarrow> mat) \<Rightarrow> (nat \<Rightarrow> vec) \<Rightarrow> real
     \<Rightarrow> error + (real option list list list \<times> real option list list)" where
  "compute_costs solve K_regularization T dX dU Cm cv K chol_pol_S pol_K pol_k eta =
     (case compute_costs_loop
             (\<lambda>t. compute_costs_step solve K_regularization dX dU (Cm t) (cv t) (K t)
                    (chol_pol_S t) (pol_K t) (pol_k t) eta) [0..<T] of
        Inl e \<Rightarrow> Inl e
      | Inr rs \<Rightarrow> Inr (map fst rs, map snd rs))"

text \<open>
  The KL penalty in the words of the specification: the block matrix
  \<open>[[K\<^sup>T \<Sigma>\<^sup>-\<^sup>1 K, - K\<^sup>T \<Sigma>\<^sup>-\<^sup>1], [- \<Sigma>\<^sup>-\<^sup>1 K, \<Sigma>\<^sup>-\<^sup>1]]\<close> and the stacked vector
  \<open>[K\<^sup>T \<Sigma>\<^sup>-\<^sup>1 k, - \<Sigma>\<^sup>-\<^sup>1 k]\<close> over the stacked (state, action) vector, written out entry by
  entry for a gain \<open>KB\<close> (\<open>dU \<times> dX\<close>), a bias \<open>kB\<close> and a matrix \<open>Sinv\<close> (\<open>dU \<times> dU\<close>).
\<close>

definition kl_quadratic_spec :: "nat \<Rightarrow> nat \<Rightarrow> mat \<Rightarrow> mat \<Rightarrow> mat" where
  "kl_quadratic_spec dX dU KB Sinv i j =
     (if i < dX then
        (if j < dX then (\<Sum>u<dU. \<Sum>v<dU. KB u i * Sinv u v * KB v j)
         else - (\<Sum>u<dU. KB u i * Sinv u (j - dX)))
      else
        (if j < dX then - (\<Sum>v<dU. Sinv (i - dX) v * KB v j)
         else Sinv (i - dX) (j - dX)))"

definition kl_linear_spec :: "nat \<Rightarrow> nat \<Rightarrow> mat \<Rightarrow> vec \<Rightarrow> mat \<Rightarrow> vec" where
  "kl_linear_spec dX dU KB kB Sinv i =
     (if i < dX then (\<Sum>u<dU. \<Sum>v<dU. KB u i * Sinv u v * kB v)
      else - (\<Sum>v<dU. Sinv (i - dX) v * kB v))"

text \<open>Two matrices agree on their first \<open>n\<close> rows and columns.\<close>

definition meq :: "nat \<Rightarrow> mat \<Rightarrow> mat \<Rightarrow> bool" where
  "meq n A B \<longleftrightarrow> (\<forall>i<n. \<forall>j<n. A i j = B i j)"

text \<open>\<open>Ai\<close> is the inverse of the \<open>n \<times> n\<close> matrix \<open>A\<close>.\<close>

definition inverse_of :: "nat \<Rightarrow> mat \<Rightarrow> mat \<Rightarrow> bool" where
  "inverse_of n A Ai \<longleftrightarrow>
     (\<forall>i<n. \<forall>j<n. dot n A Ai i j = eye i j \<and> dot n Ai A i j = eye i j)"

text \<open>What \<open>np.linalg.solve(A, B)\<close> promises for an invertible \<open>n \<times> n\<close> matrix \<open>A\<close>: it
  returns a matrix \<open>X\<close> with \<open>A X = B\<close>.\<close>

definition solves :: "nat \<Rightarrow> (mat \<Rightarrow> mat \<Rightarrow> error + mat) \<Rightarrow> mat \<Rightarrow> bool" where
  "solves n solve A \<longleftrightarrow>
     (\<forall>B. \<exists>X. solve A B = Inr X \<and> (\<forall>i<n. \<forall>j<n. dot n A X i j = B i j))"

text \<open>Example data: a solver for the systems whose matrix is diagonal with a non-zero
  diagonal.\<close>

definition solve_diag :: "mat \<Rightarrow> mat \<Rightarrow> error + mat" where
  "solve_diag A B = Inr (\<lambda>i j. B i j / A i i)"

section \<open>Properties of the cost ramps\<close>

lemma py_index_last: "xs \<noteq> [] \<Longrightarrow> py_index xs (- 1) = Inr (length xs - 1)"
  by (cases xs) (auto simp: py_index_def Let_def nat_diff_distrib)

lemma py_index_empty: "py_index [] i = Inl IndexError"
  by (simp add: py_index_def Let_def)

lemma py_index_T_minus_1: "0 < n \<Longrightarrow> length xs = n \<Longrightarrow> py_index xs (int n - 1) = Inr (n - 1)"
  by (auto simp: py_index_def Let_def nat_diff_distrib)

lemma scale_last:
  assumes "wpm \<noteq> []"
  shows "(case get_item wpm (- 1) of Inl e \<Rightarrow> Inl e
          | Inr x \<Rightarrow> set_item wpm (- 1) (x * w))
         = Inr (butlast wpm @ [last wpm * w])"
proof -
  have idx: "py_index wpm (- 1) = Inr (length wpm - 1)"
    using assms by (rule py_index_last)
  have upd: "wpm[length wpm - 1 := v] = butlast wpm @ [v]" for v
    using assms by (induction wpm rule: rev_induct) simp_all
  have "get_item wpm (- 1) = Inr (last wpm)"
    using assms by (simp add: get_item_def idx last_conv_nth)
  moreover have "set_item wpm (- 1) v = Inr (butlast wpm @ [v])" for v
    by (simp only: set_item_def idx upd sum.case)
  ultimately show ?thesis by simp
qed

lemma replicate_final_only:
  "0 < T \<Longrightarrow> (replicate T (0::real))[T - 1 := 1] = replicate (T - 1) 0 @ [1]"
  by (cases T) (simp_all add: replicate_append_same [symmetric] list_update_append)

lemma butlast_replicate_append: "butlast (replicate n x @ [y]) = replicate n x"
  by (simp add: butlast_append)

lemma ramp_constant:
  assumes "1 \<le> T"
  shows "get_ramp_multiplier RAMP_CONSTANT T w = Inr (replicate (T - 1) 1 @ [w])"
proof -
  from assms obtain n where T: "T = Suc n" by (cases T) auto
  have c: "ramp_wpm RAMP_CONSTANT T = Inr (replicate n 1 @ [1])"
    by (simp add: ramp_wpm_def T replicate_append_same)
  show ?thesis
    unfolding get_ramp_multiplier_def c sum.case
    by (subst scale_last) (simp_all add: T butlast_append)
qed

lemma ramp_final_only:
  assumes "1 \<le> T"
  shows "get_ramp_multiplier RAMP_FINAL_ONLY T w = Inr (replicate (T - 1) 0 @ [w])"
proof -
  from assms obtain n where T: "T = Suc n" by (cases T) auto
  have "set_item (replicate T (0::real)) (int T - 1) 1 = Inr (replicate n 0 @ [1])"
    using replicate_final_only [of T] py_index_T_minus_1 [of T "replicate T (0::real)"]
    by (simp add: set_item_def T)
  then have f: "ramp_wpm RAMP_FINAL_ONLY T = Inr (replicate n 0 @ [1])"
    by (simp add: ramp_wpm_def RAMP_CONSTANT_def RAMP_LINEAR_def RAMP_QUADRATIC_def
        RAMP_FINAL_ONLY_def)
  show ?thesis
    unfolding get_ramp_multiplier_def f sum.case
    by (subst scale_last) (simp_all add: T butlast_append)
qed

lemma ramp_linear_last:
  assumes "1 \<le> T"
  shows "\<exists>wpm. ramp_wpm RAMP_LINEAR T = Inr wpm \<and> length wpm = T \<and> wpm ! (T - 1) = 1"
proof -
  from assms obtain n where T: "T = Suc n" by (cases T) auto
  have "(real n + 1) / real (Suc n) = 1"
    by (simp add: field_simps)
  then show ?thesis
    by (simp add: ramp_wpm_def RAMP_CONSTANT_def RAMP_LINEAR_def T nth_append
        del: upt_Suc of_nat_Suc)
qed

lemma ramp_wpm_length:
  assumes "ramp_option \<in> {RAMP_CONSTANT, RAMP_LINEAR, RAMP_QUADRATIC, RAMP_FINAL_ONLY}"
    and "1 \<le> T"
  shows "\<exists>wpm. ramp_wpm ramp_option T = Inr wpm \<and> length wpm = T"
  using assms py_index_T_minus_1 [of T "replicate T (0::real)"]
  by (auto simp: ramp_wpm_def set_item_def)

text \<open>
  C3 (as amended). For every horizon \<open>T \<ge> 1\<close> and every \<open>wp_final_multiplier\<close>:
  with \<open>RAMP_CONSTANT\<close> the weight is 1 at every step but the last, and the last step's
  weight is \<open>wp_final_multiplier\<close>; with \<open>RAMP_FINAL_ONLY\<close> the weight is 0 at every
  step but the last, and the last step's weight is \<open>wp_final_multiplier\<close>; with
  \<open>RAMP_LINEAR\<close> the ramp before the final-step multiplier has the value 1 at
  \<open>t = T - 1\<close>.
\<close>

theorem ramp_weights:
  "1 \<le> T \<Longrightarrow>
     get_ramp_multiplier RAMP_CONSTANT T w = Inr (replicate (T - 1) 1 @ [w])
     \<and> get_ramp_multiplier RAMP_FINAL_ONLY T w = Inr (replicate (T - 1) 0 @ [w])
     \<and> (\<exists>wpm. ramp_wpm RAMP_LINEAR T = Inr wpm \<and> length wpm = T \<and> wpm ! (T - 1) = 1)"
  using ramp_constant ramp_final_only ramp_linear_last by blast

theorem ramp_weights_witness:
  "(1::nat) \<le> 3
   \<and> get_ramp_multiplier RAMP_CONSTANT 3 2 = Inr [1, 1, 2]
   \<and> get_ramp_multiplier RAMP_FINAL_ONLY 3 2 = Inr [0, 0, 2]
   \<and> (\<exists>wpm. ramp_wpm RAMP_LINEAR 3 = Inr wpm \<and> length wpm = 3 \<and> wpm ! 2 = 1)"
  using ramp_weights [of 3 2] by (simp add: numeral_3_eq_3 numeral_2_eq_2)

text \<open>
  C3 as stated fails for \<open>RAMP_CONSTANT\<close>: with \<open>T = 3\<close> and
  \<open>wp_final_multiplier = 2\<close> the result is \<open>[1, 1, 2]\<close>, not the uniform weight 1.
\<close>

theorem ramp_constant_not_uniform:
  "get_ramp_multiplier RAMP_CONSTANT 3 2 = Inr [1, 1, 2]
   \<and> get_ramp_multiplier RAMP_CONSTANT 3 2 \<noteq> Inr (replicate 3 1)"
  by (simp add: get_ramp_multiplier_def ramp_wpm_def get_item_def set_item_def py_index_def
      numeral_3_eq_3)

text \<open>
  C9. A \<open>ramp_option\<close> that is none of \<open>RAMP_CONSTANT\<close>, \<open>RAMP_LINEAR\<close>,
  \<open>RAMP_QUADRATIC\<close>, \<open>RAMP_FINAL_ONLY\<close> makes \<open>get_ramp_multiplier\<close> raise
  ValueError, whatever the horizon and the final multiplier; for each of the four
  defined modes it returns a weight vector of length \<open>T\<close> (for a horizon \<open>T \<ge> 1\<close>).
\<close>

theorem ramp_option_checked:
  "(ramp_option \<notin> {RAMP_CONSTANT, RAMP_LINEAR, RAMP_QUADRATIC, RAMP_FINAL_ONLY}
      \<longrightarrow> get_ramp_multiplier ramp_option T w = Inl ValueError)
   \<and> (ramp_option \<in> {RAMP_CONSTANT, RAMP_LINEAR, RAMP_QUADRATIC, RAMP_FINAL_ONLY} \<and> 1 \<le> T
      \<longrightarrow> (\<exists>wpm. get_ramp_multiplier ramp_option T w = Inr wpm \<and> length wpm = T))"
proof (intro conjI impI)
  assume "ramp_option \<notin> {RAMP_CONSTANT, RAMP_LINEAR, RAMP_QUADRATIC, RAMP_FINAL_ONLY}"
  then show "get_ramp_multiplier ramp_option T w = Inl ValueError"
    by (simp add: get_ramp_multiplier_def ramp_wpm_def)
next
  assume "ramp_option \<in> {RAMP_CONSTANT, RAMP_LINEAR, RAMP_QUADRATIC, RAMP_FINAL_ONLY} \<and> 1 \<le> T"
  then obtain wpm where wpm: "ramp_wpm ramp_option T = Inr wpm" "length wpm = T" and T: "1 \<le> T"
    using ramp_wpm_length by blast
  then have ne: "wpm \<noteq> []" by auto
  show "\<exists>wpm. get_ramp_multiplier ramp_option T w = Inr wpm \<and> length wpm = T"
    unfolding get_ramp_multiplier_def wpm sum.case
    by (subst scale_last [OF ne]) (use wpm T in simp)
qed

theorem ramp_option_checked_witness:
  "(7::int) \<notin> {RAMP_CONSTANT, RAMP_LINEAR, RAMP_QUADRATIC, RAMP_FINAL_ONLY}
   \<and> get_ramp_multiplier 7 5 1 = Inl ValueError
   \<and> RAMP_QUADRATIC \<in> {RAMP_CONSTANT, RAMP_LINEAR, RAMP_QUADRATIC, RAMP_FINAL_ONLY}
   \<and> (1::nat) \<le> 2
   \<and> (\<exists>wpm. get_ramp_multiplier RAMP_QUADRATIC 2 3 = Inr wpm \<and> length wpm = 2)"
  using ramp_option_checked [of 7 5 1] ramp_option_checked [of RAMP_QUADRATIC 2 3]
  by (simp add: RAMP_CONSTANT_def RAMP_LINEAR_def RAMP_QUADRATIC_def RAMP_FINAL_ONLY_def)

section \<open>Properties of the step adjustment\<close>

lemma those_map_Some: "those (map Some xs) = Some xs"
  by (induction xs) simp_all

lemma np_mean_Some:
  "xs \<noteq> [] \<Longrightarrow> np_mean (map Some xs) = Some (sum_list xs / real (length xs))"
  by (simp add: np_mean_def those_map_Some)

lemma improvements_known_rule:
  "step_rule = ''laplace'' \<or> step_rule = ''mc'' \<Longrightarrow>
     improvements estimate_cost step_rule prev cur =
       (let cost = (\<lambda>c. if step_rule = ''laplace'' then Some (laplace_cost estimate_cost c)
                         else mc_cost c)
        in Some (nf_minus (np_mean (map cost prev))
                   (np_mean (map (\<lambda>p. Some (predicted_cost estimate_cost p)) prev)),
                 nf_minus (np_mean (map cost prev)) (np_mean (map cost cur))))"
  by (auto simp: improvements_def Let_def)

lemma fold_calls:
  "fold (\<lambda>(p, a, m). f p a m) (map (\<lambda>m. (P, A, m)) ms) s = fold (f P A) ms s"
  by (induction ms arbitrary: s) simp_all

text \<open>With a \<open>step_rule\<close> that is neither \<open>'laplace'\<close> nor \<open>'mc'\<close> and at least one
  condition, the first call of \<open>_set_new_mult\<close> raises UnboundLocalError: no multiplier
  is updated.\<close>

lemma stepadjust_unknown_rule:
  "step_rule \<noteq> ''laplace'' \<Longrightarrow> step_rule \<noteq> ''mc'' \<Longrightarrow> cur \<noteq> [] \<Longrightarrow>
     stepadjust set_new_mult estimate_cost step_rule prev cur s = Inl UnboundLocalError"
  by (simp add: stepadjust_def stepadjust_calls_def improvements_def Let_def)

text \<open>
  The first half of the scenario of C5: with \<open>step_rule = 'mc'\<close>, a mean realised cost of
  the previous controllers of 10, a mean predicted cost of 8 and a mean realised cost of
  the current controllers of 9, lines 225 and 226 give \<open>predicted_impr = 2\<close> and
  \<open>actual_impr = 1\<close>. What the multiplier does with this pair is decided in
  \<open>Algorithm._set_new_mult\<close>.
\<close>

lemma improvements_mc:
  assumes "np_mean (map mc_cost prev) = Some 10"
    and "np_mean (map (\<lambda>p. Some (predicted_cost estimate_cost p)) prev) = Some 8"
    and "np_mean (map mc_cost cur) = Some 9"
  shows "improvements estimate_cost ''mc'' prev cur = Some (Some 2, Some 1)"
  using assms by (simp add: improvements_def nf_minus_def)

lemma improvements_mc_example:
  "improvements est_id ''mc'' [cond [11] [8] [[10]]] [cond [9] [7] [[9]]] = Some (Some 2, Some 1)"
  by (rule improvements_mc)
    (simp_all add: np_mean_def mc_cost_def cs_mean_sum_def predicted_cost_def est_id_def cond_def)

text \<open>
  C4 (as amended). \<open>_stepadjust\<close> compares no sample counts. With \<open>step_rule\<close>
  \<open>'laplace'\<close> or \<open>'mc'\<close> the pair of improvements is computed from all conditions and
  \<open>_set_new_mult\<close> is called with it for every condition \<open>m = 0, \<dots>, M - 1\<close> in turn,
  whatever the sample counts of the condition in the two iterations are; the call
  returns, it is not aborted.
\<close>

theorem stepadjust_updates_every_condition:
  "step_rule = ''laplace'' \<or> step_rule = ''mc'' \<Longrightarrow>
     \<exists>predicted_impr actual_impr.
       improvements estimate_cost step_rule prev cur = Some (predicted_impr, actual_impr)
       \<and> stepadjust set_new_mult estimate_cost step_rule prev cur s
           = Inr (fold (set_new_mult predicted_impr actual_impr) [0..<length cur] s)"
  by (auto simp: stepadjust_def stepadjust_calls_def improvements_def Let_def fold_calls)

theorem stepadjust_updates_every_condition_witness:
  "(''laplace'' = ''laplace'' \<or> ''laplace'' = ''mc'')
   \<and> (\<exists>predicted_impr actual_impr.
        improvements est_id ''laplace''
          [cond [11] [8] [[10]], cond [21] [16] [[20]]]
          [cond [9] [7] [[9]], cond [18] [15] [[16], [20]]] = Some (predicted_impr, actual_impr)
        \<and> stepadjust (\<lambda>p a m s. s @ [(p, a, m)]) est_id ''laplace''
            [cond [11] [8] [[10]], cond [21] [16] [[20]]]
            [cond [9] [7] [[9]], cond [18] [15] [[16], [20]]] []
          = Inr [(predicted_impr, actual_impr, 0), (predicted_impr, actual_impr, 1)])"
  using stepadjust_updates_every_condition [of "''laplace''" est_id
      "[cond [11] [8] [[10]], cond [21] [16] [[20]]]"
      "[cond [9] [7] [[9]], cond [18] [15] [[16], [20]]]"
      "\<lambda>p a m s. s @ [(p, a, m)]" "[]"]
  by simp

text \<open>
  C4 as stated fails. Two conditions under \<open>step_rule = 'mc'\<close>; condition 1 has one
  sample in the previous iteration and two in the current one. \<open>_set_new_mult\<close> is called
  for condition 1 as for condition 0, and the pair it receives, \<open>(3, 3/2)\<close>, is computed
  with the costs of condition 1: condition 0 alone gives \<open>(2, 1)\<close>.
\<close>

theorem stepadjust_mismatch_updated:
  "length (cs (cond [18] [15] [[16], [20]])) \<noteq> length (cs (cond [21] [16] [[20]]))
   \<and> stepadjust_calls est_id ''mc''
        [cond [11] [8] [[10]], cond [21] [16] [[20]]]
        [cond [9] [7] [[9]], cond [18] [15] [[16], [20]]]
      = Inr [(Some 3, Some (3 / 2), 0), (Some 3, Some (3 / 2), 1)]
   \<and> stepadjust_calls est_id ''mc'' [cond [11] [8] [[10]]] [cond [9] [7] [[9]]]
      = Inr [(Some 2, Some 1, 0)]"
  by (simp add: stepadjust_calls_def improvements_def np_mean_def mc_cost_def
      cs_mean_sum_def nf_minus_def predicted_cost_def est_id_def cond_def)

text \<open>
  C10. With \<open>step_rule\<close> \<open>'laplace'\<close> or \<open>'mc'\<close>, \<open>_stepadjust\<close> computes one pair
  \<open>(predicted_impr, actual_impr)\<close> from the arithmetic means over all conditions of the
  previous costs, of the predicted costs and of the current costs, and every call of
  \<open>_set_new_mult\<close>, one for each condition \<open>m\<close>, receives this same pair.
\<close>

theorem stepadjust_shared_pair:
  "step_rule = ''laplace'' \<or> step_rule = ''mc'' \<Longrightarrow>
     (let cost = (\<lambda>c. if step_rule = ''laplace'' then Some (laplace_cost estimate_cost c)
                       else mc_cost c);
          predicted_impr = nf_minus (np_mean (map cost prev))
                             (np_mean (map (\<lambda>p. Some (predicted_cost estimate_cost p)) prev));
          actual_impr = nf_minus (np_mean (map cost prev)) (np_mean (map cost cur))
      in stepadjust_calls estimate_cost step_rule prev cur
           = Inr (map (\<lambda>m. (predicted_impr, actual_impr, m)) [0..<length cur]))"
  by (simp add: stepadjust_calls_def improvements_known_rule Let_def)

theorem stepadjust_shared_pair_witness:
  "(''mc'' = ''laplace'' \<or> ''mc'' = ''mc'')
   \<and> stepadjust_calls est_id ''mc''
        [cond [11] [8] [[10]], cond [21] [16] [[20]]]
        [cond [9] [7] [[9]], cond [18] [15] [[17], [19]]]
      = Inr [(Some 3, Some (3 / 2), 0), (Some 3, Some (3 / 2), 1)]"
  using stepadjust_shared_pair [of "''mc''" est_id
      "[cond [11] [8] [[10]], cond [21] [16] [[20]]]"
      "[cond [9] [7] [[9]], cond [18] [15] [[17], [19]]]"]
  by (simp add: Let_def np_mean_def mc_cost_def cs_mean_sum_def nf_minus_def
      predicted_cost_def est_id_def cond_def)

section \<open>Properties of the penalty shapes\<close>

lemma nf_sum_char:
  "nf_sum n f = (if \<forall>i<n. f i \<noteq> None then Some (\<Sum>i<n. the (f i)) else None)"
proof (induction n)
  case 0
  show ?case by simp
next
  case (Suc n)
  show ?case
  proof (cases "f n")
    case None
    then have "\<not> (\<forall>i<Suc n. f i \<noteq> None)" by blast
    with None show ?thesis by (simp split: Option.bind_split)
  next
    case (Some x)
    then have "(\<forall>i<Suc n. f i \<noteq> None) \<longleftrightarrow> (\<forall>i<n. f i \<noteq> None)"
      by (auto simp: less_Suc_eq)
    with Some Suc show ?thesis by simp
  qed
qed

lemma nf_sum_Some:
  "(\<And>i. i < n \<Longrightarrow> f i = Some (g i)) \<Longrightarrow> nf_sum n f = Some (\<Sum>i<n. g i)"
  by (simp add: nf_sum_char)

lemma nf_sum_cong:
  "(\<And>i. i < n \<Longrightarrow> f i = g i) \<Longrightarrow> nf_sum n f = nf_sum n g"
  by (simp add: nf_sum_char)

lemma nf_sum_swap:
  "nf_sum n (\<lambda>j. nf_sum m (\<lambda>i. f i j)) = nf_sum m (\<lambda>i. nf_sum n (\<lambda>j. f i j))"
proof (cases "\<forall>i<m. \<forall>j<n. f i j \<noteq> None")
  case True
  then have "nf_sum n (\<lambda>j. nf_sum m (\<lambda>i. f i j)) = Some (\<Sum>j<n. \<Sum>i<m. the (f i j))"
    by (intro nf_sum_Some) (simp add: nf_sum_char)
  moreover from True have "nf_sum m (\<lambda>i. nf_sum n (\<lambda>j. f i j)) = Some (\<Sum>i<m. \<Sum>j<n. the (f i j))"
    by (intro nf_sum_Some) (simp add: nf_sum_char)
  ultimately show ?thesis by (simp add: sum.swap [of _ "{..<n}"])
next
  case False
  then obtain i j where ij: "i < m" "j < n" "f i j = None" by blast
  then have "nf_sum m (\<lambda>i. f i j) = None" "nf_sum n (\<lambda>j. f i j) = None"
    by (auto simp: nf_sum_char)
  with ij show ?thesis by (auto simp: nf_sum_char)
qed

lemma chain_lxx_sym:
  assumes sym: "\<And>i j. i < D \<Longrightarrow> j < D \<Longrightarrow> d2 t i j = d2 t j i"
  shows "chain_lxx D Jd Jdd d1 d2 t a b = chain_lxx D Jd Jdd d1 d2 t b a"
proof -
  let ?Q = "\<lambda>a b. nf_sum D (\<lambda>j. nf_sum D (\<lambda>i. do { v \<leftarrow> d2 t i j; Some (Jd t i a * Jd t j b * v) }))"
  have "?Q b a = nf_sum D (\<lambda>i. nf_sum D (\<lambda>j. do { v \<leftarrow> d2 t i j; Some (Jd t i b * Jd t j a * v) }))"
    by (rule nf_sum_swap)
  also have "\<dots> = ?Q a b"
    by (intro nf_sum_cong) (simp add: sym mult.commute)
  finally have Q: "?Q b a = ?Q a b" .
  show ?thesis
    unfolding chain_lxx_def Q
    by (cases "chain_sec D Jdd d1 t a b"; cases "chain_sec D Jdd d1 t b a"; cases "?Q a b") simp_all
qed

lemma eye_sym: "eye i j = eye j i"
  by (simp add: eye_def)

lemma evall1l2term_d2_sym:
  "evall1l2term_d2 wp d D l1 l2 alpha t i j = evall1l2term_d2 wp d D l1 l2 alpha t j i"
  by (cases "l1l2_psq wp d D alpha t"; cases "i = j")
    (simp_all add: evall1l2term_d2_def eye_def np_div_def mult.commute)

lemma evallogl2term_d2_sym:
  "evallogl2term_d2 wp d D l1 l2 alpha t i j = evallogl2term_d2 wp d D l1 l2 alpha t j i"
  by (cases "i = j") (simp_all add: evallogl2term_d2_def eye_def np_div_def mult.commute)

lemma evalasymetric_d2_sym: "evalasymetric_d2 wp d alpha t i j = evalasymetric_d2 wp d alpha t j i"
  by (cases "i = j") (simp_all add: evalasymetric_d2_def eye_def)

lemma evalexp_d2_sym: "evalexp_d2 wp d t i j = evalexp_d2 wp d t j i"
  by (cases "i = j") (simp_all add: evalexp_d2_def eye_def)

text \<open>
  C6. For each of the four penalty shapes, every input and every time step \<open>t\<close>, the
  Hessian is symmetric: the entry \<open>lxx[t, a, b]\<close> equals the entry \<open>lxx[t, b, a]\<close>
  (in real arithmetic; where a domain error makes one of them NaN, the other is NaN too).
\<close>

theorem hessian_symmetric:
  "evall1l2term_lxx wp d Jd Jdd D l1 l2 alpha t a b = evall1l2term_lxx wp d Jd Jdd D l1 l2 alpha t b a
   \<and> evallogl2term_lxx wp d Jd Jdd D l1 l2 alpha t a b = evallogl2term_lxx wp d Jd Jdd D l1 l2 alpha t b a
   \<and> evalasymetric_lxx wp d Jd Jdd D alpha t a b = evalasymetric_lxx wp d Jd Jdd D alpha t b a
   \<and> evalexp_lxx wp d Jd Jdd D t a b = evalexp_lxx wp d Jd Jdd D t b a"
  unfolding evall1l2term_lxx_def evallogl2term_lxx_def evalasymetric_lxx_def evalexp_lxx_def
  by (intro conjI chain_lxx_sym evall1l2term_d2_sym evallogl2term_d2_sym evalasymetric_d2_sym
      evalexp_d2_sym)


text \<open>An example with one residual dimension and two state dimensions, in which \<open>Jdd\<close>
  itself is not symmetric: \<open>wp = 1\<close>, \<open>d = 1\<close>, \<open>Jd = 0\<close>, \<open>Jdd[t, 0, 0, 1] = 1\<close> and the other
  entries of \<open>Jdd\<close> zero, \<open>alpha = 0\<close>. Both off-diagonal entries of the Hessian of the
  asymmetric shape are \<open>1/2\<close>.\<close>

lemma hessian_example:
  "evalasymetric_lxx (\<lambda>t i. 1) (\<lambda>t i. 1) (\<lambda>t i a. 0)
     (\<lambda>t i a b. if a = 0 \<and> b = 1 then 1 else 0) 1 0 0 0 1 = Some (1 / 2)"
  "evalasymetric_lxx (\<lambda>t i. 1) (\<lambda>t i. 1) (\<lambda>t i a. 0)
     (\<lambda>t i a b. if a = 0 \<and> b = 1 then 1 else 0) 1 0 0 1 0 = Some (1 / 2)"
  by (simp_all add: evalasymetric_lxx_def chain_lxx_def chain_sec_def evalasymetric_d1_def
      evalasymetric_d2_def asym_skew_def)

lemma chain_lx_Some:
  "(\<And>i. i < D \<Longrightarrow> d1 t i = Some (g i)) \<Longrightarrow> chain_lx D Jd d1 t a = Some (\<Sum>i<D. Jd t i a * g i)"
  unfolding chain_lx_def by (rule nf_sum_Some) simp

lemma l1l2_psq_zero:
  assumes "0 < alpha" and "\<And>i. i < D \<Longrightarrow> d t i = 0"
  shows "l1l2_psq wp d D alpha t = Some (sqrt alpha)"
  using assms by (simp add: l1l2_psq_def np_sqrt_def)

lemma logl2_psq_zero:
  assumes "\<And>i. i < D \<Longrightarrow> d t i = 0"
  shows "logl2_psq wp d D alpha t = alpha"
  using assms by (simp add: logl2_psq_def)

lemma l2_part_zero:
  assumes "\<And>i. i < D \<Longrightarrow> d t i = 0" and "\<And>i. i < D \<Longrightarrow> 0 \<le> wp t i"
  shows "l2_part wp d D l2 t = Some 0"
proof -
  have "np_sqrt (wp t i) = Some (sqrt (wp t i))" if "i < D" for i
    using assms(2) [OF that] by (simp add: np_sqrt_def)
  then have "nf_sum D (\<lambda>i. do { sqrtwp \<leftarrow> np_sqrt (wp t i); Some ((d t i * sqrtwp)\<^sup>2) })
        = Some (\<Sum>i<D. 0)"
    by (intro nf_sum_Some) (simp add: assms(1))
  then show ?thesis by (simp add: l2_part_def)
qed

lemma l2_part_negative_weight:
  assumes "i < D" and "wp t i < 0"
  shows "l2_part wp d D l2 t = None"
proof -
  have "nf_sum D (\<lambda>i. do { sqrtwp \<leftarrow> np_sqrt (wp t i); Some ((d t i * sqrtwp)\<^sup>2) }) = None"
    using assms by (auto simp: nf_sum_char np_sqrt_def)
  then show ?thesis by (simp add: l2_part_def)
qed

lemma evall1l2term_zero:
  assumes "0 < alpha" and d: "\<And>i. i < D \<Longrightarrow> d t i = 0"
  shows "evall1l2term_lx wp d Jd D l1 l2 alpha t a = Some 0"
    and "(\<And>i. i < D \<Longrightarrow> 0 \<le> wp t i) \<Longrightarrow> evall1l2term_l wp d D l1 l2 alpha t = Some (sqrt alpha * l1)"
proof -
  have psq: "l1l2_psq wp d D alpha t = Some (sqrt alpha)"
    using assms by (rule l1l2_psq_zero)
  have "evall1l2term_d1 wp d D l1 l2 alpha t i = Some 0" if "i < D" for i
    using that assms by (simp add: evall1l2term_d1_def psq np_div_def)
  then show "evall1l2term_lx wp d Jd D l1 l2 alpha t a = Some 0"
    unfolding evall1l2term_lx_def by (subst chain_lx_Some [where g = "\<lambda>i. 0"]) simp_all
  show "evall1l2term_l wp d D l1 l2 alpha t = Some (sqrt alpha * l1)"
    if "\<And>i. i < D \<Longrightarrow> 0 \<le> wp t i"
    using l2_part_zero [of D d t wp l2] d that by (simp add: evall1l2term_l_def psq)
qed

lemma evallogl2term_zero:
  assumes "0 < alpha" and d: "\<And>i. i < D \<Longrightarrow> d t i = 0"
  shows "evallogl2term_lx wp d Jd D l1 l2 alpha t a = Some 0"
    and "(\<And>i. i < D \<Longrightarrow> 0 \<le> wp t i) \<Longrightarrow> evallogl2term_l wp d D l1 l2 alpha t = Some (0.5 * ln alpha * l1)"
proof -
  have psq: "logl2_psq wp d D alpha t = alpha"
    using d by (rule logl2_psq_zero)
  have "evallogl2term_d1 wp d D l1 l2 alpha t i = Some 0" if "i < D" for i
    using that assms by (simp add: evallogl2term_d1_def psq np_div_def)
  then show "evallogl2term_lx wp d Jd D l1 l2 alpha t a = Some 0"
    unfolding evallogl2term_lx_def by (subst chain_lx_Some [where g = "\<lambda>i. 0"]) simp_all
  show "evallogl2term_l wp d D l1 l2 alpha t = Some (0.5 * ln alpha * l1)"
    if "\<And>i. i < D \<Longrightarrow> 0 \<le> wp t i"
    using l2_part_zero [of D d t wp l2] d that assms(1)
    by (simp add: evallogl2term_l_def psq np_log_def)
qed

lemma evalasymetric_zero:
  assumes d: "\<And>i. i < D \<Longrightarrow> d t i = 0"
  shows "evalasymetric_lx wp d Jd D alpha t a = Some 0"
    and "evalasymetric_l wp d D alpha t = Some 0"
proof -
  show "evalasymetric_lx wp d Jd D alpha t a = Some 0"
    unfolding evalasymetric_lx_def
    by (subst chain_lx_Some [where g = "\<lambda>i. 0"]) (simp_all add: evalasymetric_d1_def d)
  show "evalasymetric_l wp d D alpha t = Some 0"
    by (simp add: evalasymetric_l_def d)
qed

text \<open>What \<open>evalexp\<close> computes at a zero residual. The sign of the gradient is that of
  the line \<open>d1 = -wp * ex\<close>, which is at odds with the documented loss (see C8); only its
  finiteness is used below.\<close>

lemma evalexp_zero:
  assumes d: "\<And>i. i < D \<Longrightarrow> d t i = 0"
  shows "evalexp_lx wp d Jd D t a = Some (- (\<Sum>i<D. Jd t i a * wp t i))"
    and "evalexp_l wp d D t = Some (real D)"
proof -
  have ex: "exp_ex wp d t i = 1" if "i < D" for i
    using that by (simp add: exp_ex_def d)
  show "evalexp_lx wp d Jd D t a = Some (- (\<Sum>i<D. Jd t i a * wp t i))"
    unfolding evalexp_lx_def
    by (subst chain_lx_Some [where g = "\<lambda>i. - wp t i"])
      (simp_all add: evalexp_d1_def ex sum_negf)
  show "evalexp_l wp d D t = Some (real D)"
    by (simp add: evalexp_l_def ex)
qed

text \<open>
  C7 (as amended). For \<open>alpha > 0\<close> and a residual that is zero at time step \<open>t\<close>, for
  every \<open>wp\<close>, \<open>Jd\<close> and \<open>Jdd\<close>: each of the four shapes returns a finite gradient, and for
  the l1/l2, the log-l2 and the asymmetric shape it is the analytic value 0; the
  asymmetric and the exponential shape return a finite loss, and so do the l1/l2 and the
  log-l2 shape when no weight \<open>wp[t, i]\<close> is negative.
\<close>

theorem finite_at_zero_residual:
  "0 < alpha \<Longrightarrow> \<forall>i<D. d t i = 0 \<Longrightarrow>
     evall1l2term_lx wp d Jd D l1 l2 alpha t a = Some 0
     \<and> evallogl2term_lx wp d Jd D l1 l2 alpha t a = Some 0
     \<and> evalasymetric_lx wp d Jd D alpha t a = Some 0
     \<and> evalexp_lx wp d Jd D t a \<noteq> None
     \<and> evalasymetric_l wp d D alpha t \<noteq> None
     \<and> evalexp_l wp d D t \<noteq> None
     \<and> ((\<forall>i<D. 0 \<le> wp t i) \<longrightarrow>
          evall1l2term_l wp d D l1 l2 alpha t \<noteq> None
          \<and> evallogl2term_l wp d D l1 l2 alpha t \<noteq> None)"
  using evall1l2term_zero [where alpha = alpha and D = D and d = d and t = t and wp = wp]
    evallogl2term_zero [where alpha = alpha and D = D and d = d and t = t and wp = wp]
    evalasymetric_zero [where D = D and d = d and t = t and wp = wp]
    evalexp_zero [where D = D and d = d and t = t and wp = wp]
  by simp

theorem finite_at_zero_residual_witness:
  "(0::real) < 4
   \<and> evall1l2term_lx (\<lambda>t i. 2) (\<lambda>t i. 0) (\<lambda>t i a. 3) 2 1 1 4 0 0 = Some 0
   \<and> evallogl2term_lx (\<lambda>t i. 2) (\<lambda>t i. 0) (\<lambda>t i a. 3) 2 1 1 4 0 0 = Some 0
   \<and> evalasymetric_lx (\<lambda>t i. 2) (\<lambda>t i. 0) (\<lambda>t i a. 3) 2 4 0 0 = Some 0
   \<and> evalexp_lx (\<lambda>t i. 2) (\<lambda>t i. 0) (\<lambda>t i a. 3) 2 0 0 \<noteq> None
   \<and> evalasymetric_l (\<lambda>t i. 2) (\<lambda>t i. 0) 2 4 0 \<noteq> None
   \<and> evalexp_l (\<lambda>t i. 2) (\<lambda>t i. 0) 2 0 \<noteq> None
   \<and> evall1l2term_l (\<lambda>t i. 2) (\<lambda>t i. 0) 2 1 1 4 0 \<noteq> None
   \<and> evallogl2term_l (\<lambda>t i. 2) (\<lambda>t i. 0) 2 1 1 4 0 \<noteq> None"
  using finite_at_zero_residual [where alpha = 4 and D = 2 and d = "\<lambda>t i. 0" and t = 0
      and wp = "\<lambda>t i. 2" and Jd = "\<lambda>t i a. 3" and ?l1.0 = 1 and ?l2.0 = 1 and a = 0]
  by (simp add: numeral_2_eq_2)

text \<open>
  C7 as stated fails for the loss: with the weight \<open>wp = -1\<close>, \<open>np.sqrt(wp)\<close> is NaN and
  so is the loss of the l1/l2 and of the log-l2 shape, even at \<open>d = 0\<close> and with
  \<open>alpha = 1\<close>.
\<close>

theorem loss_nan_negative_weight:
  "(0::real) < 1
   \<and> evall1l2term_l (\<lambda>t i. - 1) (\<lambda>t i. 0) 1 1 1 1 0 = None
   \<and> evallogl2term_l (\<lambda>t i. - 1) (\<lambda>t i. 0) 1 1 1 1 0 = None"
  by (simp add: evall1l2term_l_def evallogl2term_l_def l2_part_def np_sqrt_def)

text \<open>Where the clip is inactive, the gradient that \<open>evalexp\<close> returns is the negative
  of the chain-rule derivative of \<open>\<Sum>i. exp(d[t, i] * wp[t, i])\<close>: the line
  \<open>d1 = -wp * ex\<close> carries a minus sign that the loss \<open>l = np.sum(ex, axis=1)\<close> and the
  second-order term \<open>d2\<close> do not have.\<close>

lemma evalexp_lx_unclipped:
  assumes "\<And>i. i < D \<Longrightarrow> exp (d t i * wp t i) < 1"
  shows "evalexp_lx wp d Jd D t a = Some (- (\<Sum>i<D. Jd t i a * wp t i * exp (d t i * wp t i)))"
proof -
  have ex: "exp_ex wp d t i = exp (d t i * wp t i)" if "i < D" for i
    using assms [OF that] by (simp add: exp_ex_def max_def min_def)
  have "evalexp_lx wp d Jd D t a = Some (\<Sum>i<D. Jd t i a * (- wp t i * exp (d t i * wp t i)))"
    unfolding evalexp_lx_def by (rule chain_lx_Some) (simp add: evalexp_d1_def ex)
  then show ?thesis by (simp add: sum_negf mult.assoc)
qed

text \<open>
  C8 fails on the code. With \<open>D = Dx = 1\<close>, \<open>wp = 1\<close>, \<open>d = -1\<close> and \<open>Jd = 1\<close> the clip is
  inactive (\<open>exp(-1) < 1\<close>); the chain rule gives the gradient \<open>Jd * wp * exp(d * wp) =
  exp(-1)\<close> for the documented loss \<open>e^(wp*d)\<close>, and \<open>evalexp\<close> returns \<open>- exp(-1)\<close>.
\<close>

theorem evalexp_gradient_sign:
  "exp ((- 1) * 1) < (1::real)
   \<and> evalexp_lx (\<lambda>t i. 1) (\<lambda>t i. - 1) (\<lambda>t i a. 1) 1 0 0 = Some (- exp (- 1))
   \<and> evalexp_lx (\<lambda>t i. 1) (\<lambda>t i. - 1) (\<lambda>t i a. 1) 1 0 0 \<noteq> Some (1 * 1 * exp ((- 1) * 1))"
  by (simp add: evalexp_lx_def chain_lx_def evalexp_d1_def exp_ex_def max_def min_def)

section \<open>Properties of the cost fusion\<close>

lemma meq_refl: "meq n A A"
  by (simp add: meq_def)

lemma meq_sym: "meq n A B \<Longrightarrow> meq n B A"
  by (simp add: meq_def)

lemma meq_trans [trans]: "meq n A B \<Longrightarrow> meq n B C \<Longrightarrow> meq n A C"
  by (simp add: meq_def)

lemma meq_eq_trans [trans]: "meq n A B \<Longrightarrow> B = C \<Longrightarrow> meq n A C"
  by simp

lemma eq_meq_trans [trans]: "A = B \<Longrightarrow> meq n B C \<Longrightarrow> meq n A C"
  by simp

lemma dot_meq: "meq n A A' \<Longrightarrow> meq n B B' \<Longrightarrow> meq n (dot n A B) (dot n A' B')"
  by (simp add: meq_def dot_def)

lemma dot_assoc: "dot n (dot n A B) C = dot n A (dot n B C)"
proof (intro ext)
  fix i j
  have "dot n (dot n A B) C i j = (\<Sum>k<n. \<Sum>m<n. A i m * B m k * C k j)"
    by (simp add: dot_def sum_distrib_right)
  also have "\<dots> = (\<Sum>m<n. \<Sum>k<n. A i m * B m k * C k j)"
    by (rule sum.swap)
  also have "\<dots> = dot n A (dot n B C) i j"
    by (simp add: dot_def sum_distrib_left mult.assoc)
  finally show "dot n (dot n A B) C i j = dot n A (dot n B C) i j" .
qed

lemma sum_eye_left: "i < n \<Longrightarrow> (\<Sum>k<n. eye i k * f k) = f i"
  by (simp add: eye_def if_distrib [of "\<lambda>x. x * _"] cong: if_cong)

lemma sum_eye_right: "j < n \<Longrightarrow> (\<Sum>k<n. f k * eye k j) = f j"
  by (simp add: eye_def if_distrib [of "\<lambda>x. _ * x"] cong: if_cong)

lemma dot_eye_left: "meq n (dot n eye A) A"
  by (simp add: meq_def dot_def sum_eye_left)

lemma dot_eye_right: "meq n (dot n A eye) A"
  by (simp add: meq_def dot_def sum_eye_right)

lemma mT_dot: "mT (dot n A B) = dot n (mT B) (mT A)"
  by (simp add: mT_def dot_def mult.commute)

lemma mT_eye: "mT eye = eye"
  by (intro ext) (auto simp: mT_def eye_def)

lemma meq_mT: "meq n A B \<Longrightarrow> meq n (mT A) (mT B)"
  by (simp add: meq_def mT_def)

lemma inverse_of_meq:
  "inverse_of n A Ai \<longleftrightarrow> meq n (dot n A Ai) eye \<and> meq n (dot n Ai A) eye"
  by (auto simp: inverse_of_def meq_def)

lemma inverse_of_cong: "meq n A A' \<Longrightarrow> inverse_of n A Ai \<Longrightarrow> inverse_of n A' Ai"
  unfolding inverse_of_meq
  by (metis dot_meq meq_refl meq_sym meq_trans)

lemma inverse_of_unique:
  assumes "inverse_of n A X" and "inverse_of n A Y"
  shows "meq n X Y"
proof -
  from assms have XA: "meq n (dot n X A) eye" and AY: "meq n (dot n A Y) eye"
    by (simp_all add: inverse_of_meq)
  have "meq n X (dot n X eye)"
    by (rule meq_sym) (rule dot_eye_right)
  also have "meq n \<dots> (dot n X (dot n A Y))"
    by (rule dot_meq [OF meq_refl meq_sym [OF AY]])
  also have "\<dots> = dot n (dot n X A) Y"
    by (simp add: dot_assoc)
  also have "meq n \<dots> (dot n eye Y)"
    by (rule dot_meq [OF XA meq_refl])
  also have "meq n \<dots> Y"
    by (rule dot_eye_left)
  finally show ?thesis .
qed

text \<open>The two solves give the inverse of \<open>C\<^sup>T C\<close>.\<close>

lemma two_solves_inverse:
  assumes inv: "inverse_of n C Ci"
    and Y: "meq n (dot n (mT C) Y) eye"
    and Z: "meq n (dot n C Z) Y"
  shows "inverse_of n (dot n (mT C) C) Z"
proof -
  from inv have CCi: "meq n (dot n C Ci) eye" and CiC: "meq n (dot n Ci C) eye"
    by (simp_all add: inverse_of_meq)
  have CiTCT: "meq n (dot n (mT Ci) (mT C)) eye"
    using meq_mT [OF CCi] by (simp add: mT_dot mT_eye)
  have right: "meq n (dot n (dot n (mT C) C) Z) eye"
  proof -
    have "dot n (dot n (mT C) C) Z = dot n (mT C) (dot n C Z)"
      by (rule dot_assoc)
    also have "meq n \<dots> (dot n (mT C) Y)"
      by (rule dot_meq [OF meq_refl Z])
    also note Y
    finally show ?thesis .
  qed
  have Y': "meq n Y (mT Ci)"
  proof -
    have "meq n Y (dot n eye Y)"
      by (rule meq_sym) (rule dot_eye_left)
    also have "meq n \<dots> (dot n (dot n (mT Ci) (mT C)) Y)"
      by (rule dot_meq [OF meq_sym [OF CiTCT] meq_refl])
    also have "\<dots> = dot n (mT Ci) (dot n (mT C) Y)"
      by (rule dot_assoc)
    also have "meq n \<dots> (dot n (mT Ci) eye)"
      by (rule dot_meq [OF meq_refl Y])
    also have "meq n \<dots> (mT Ci)"
      by (rule dot_eye_right)
    finally show ?thesis .
  qed
  have Z': "meq n Z (dot n Ci (mT Ci))"
  proof -
    have "meq n Z (dot n eye Z)"
      by (rule meq_sym) (rule dot_eye_left)
    also have "meq n \<dots> (dot n (dot n Ci C) Z)"
      by (rule dot_meq [OF meq_sym [OF CiC] meq_refl])
    also have "\<dots> = dot n Ci (dot n C Z)"
      by (rule dot_assoc)
    also have "meq n \<dots> (dot n Ci Y)"
      by (rule dot_meq [OF meq_refl Z])
    also have "meq n \<dots> (dot n Ci (mT Ci))"
      by (rule dot_meq [OF meq_refl Y'])
    finally show ?thesis .
  qed
  have left: "meq n (dot n Z (dot n (mT C) C)) eye"
  proof -
    have "meq n (dot n Z (dot n (mT C) C)) (dot n (dot n Ci (mT Ci)) (dot n (mT C) C))"
      by (rule dot_meq [OF Z' meq_refl])
    also have "\<dots> = dot n Ci (dot n (dot n (mT Ci) (mT C)) C)"
      by (simp add: dot_assoc)
    also have "meq n \<dots> (dot n Ci (dot n eye C))"
      by (rule dot_meq [OF meq_refl dot_meq [OF CiTCT meq_refl]])
    also have "meq n \<dots> (dot n Ci C)"
      by (rule dot_meq [OF meq_refl dot_eye_left])
    also note CiC
    finally show ?thesis .
  qed
  from right left show ?thesis
    by (simp add: inverse_of_meq)
qed

lemma lessThan_1: "{..<Suc 0} = {0}"
  by auto

lemma PKLm_spec:
  "vstack dX (hstack dX (dot dU (dot dU (mT KB) Z) KB) (\<lambda>i j. - dot dU (mT KB) Z i j))
     (hstack dX (\<lambda>i j. - dot dU Z KB i j) Z) = kl_quadratic_spec dX dU KB Z"
proof (intro ext)
  fix i j
  have "dot dU (dot dU (mT KB) Z) KB i j = (\<Sum>v<dU. \<Sum>u<dU. KB u i * Z u v * KB v j)"
    by (simp add: dot_def mT_def sum_distrib_right)
  also have "\<dots> = (\<Sum>u<dU. \<Sum>v<dU. KB u i * Z u v * KB v j)"
    by (rule sum.swap)
  finally show "vstack dX (hstack dX (dot dU (dot dU (mT KB) Z) KB) (\<lambda>i j. - dot dU (mT KB) Z i j))
     (hstack dX (\<lambda>i j. - dot dU Z KB i j) Z) i j = kl_quadratic_spec dX dU KB Z i j"
    by (simp add: vstack_def hstack_def kl_quadratic_spec_def) (simp add: dot_def mT_def)
qed

lemma PKLv_spec:
  "concatenate dX (dotv dU (dot dU (mT KB) Z) kB) (\<lambda>i. - dotv dU Z kB i)
     = kl_linear_spec dX dU KB kB Z"
proof (intro ext)
  fix i
  have "dotv dU (dot dU (mT KB) Z) kB i = (\<Sum>v<dU. \<Sum>u<dU. KB u i * Z u v * kB v)"
    by (simp add: dotv_def dot_def mT_def sum_distrib_right)
  also have "\<dots> = (\<Sum>u<dU. \<Sum>v<dU. KB u i * Z u v * kB v)"
    by (rule sum.swap)
  finally show "concatenate dX (dotv dU (dot dU (mT KB) Z) kB) (\<lambda>i. - dotv dU Z kB i) i
     = kl_linear_spec dX dU KB kB Z i"
    by (simp add: concatenate_def kl_linear_spec_def) (simp add: dotv_def)
qed

lemma kl_fuse_spec:
  "kl_fuse reg dX dU Cm_t cv_t K_t KB kB Z eta =
     (map (\<lambda>i. map (\<lambda>j. np_div (Cm_t i j + reg * norm_inf dU dX K_t * eye i j
                                 + kl_quadratic_spec dX dU KB Z i j * eta) eta)
                  [0..<dX + dU]) [0..<dX + dU],
      map (\<lambda>i. np_div (cv_t i + kl_linear_spec dX dU KB kB Z i * eta) eta) [0..<dX + dU])"
  by (simp add: kl_fuse_def Let_def PKLm_spec PKLv_spec)

lemma compute_costs_step_Inr_iff:
  "compute_costs_step solve reg dX dU Cm_t cv_t K_t C KB kB eta = Inr r \<longleftrightarrow>
     (\<exists>Y Z. solve (mT C) eye = Inr Y \<and> solve C Y = Inr Z
        \<and> r = kl_fuse reg dX dU Cm_t cv_t K_t KB kB Z eta)"
  by (auto simp: compute_costs_step_def split: sum.splits)

lemma compute_costs_loop_map:
  "(\<And>t. t \<in> set ts \<Longrightarrow> step t = Inr (f t)) \<Longrightarrow> compute_costs_loop step ts = Inr (map f ts)"
  by (induction ts) simp_all

lemma compute_costs_loop_Inr:
  "compute_costs_loop step ts = Inr rs \<Longrightarrow>
     length rs = length ts \<and> (\<forall>k<length ts. step (ts ! k) = Inr (rs ! k))"
proof (induction ts arbitrary: rs)
  case Nil
  then show ?case by simp
next
  case (Cons t ts)
  then obtain r rs' where r: "step t = Inr r" and rs': "compute_costs_loop step ts = Inr rs'"
    and rs: "rs = r # rs'"
    by (auto split: sum.splits)
  from Cons.IH [OF rs'] r rs show ?case
    by (auto simp: nth_Cons split: nat.splits)
qed



lemma kl_fuse_length:
  "length (fst (kl_fuse reg dX dU Cm_t cv_t K_t KB kB Z eta)) = dX + dU"
  "length (snd (kl_fuse reg dX dU Cm_t cv_t K_t KB kB Z eta)) = dX + dU"
  by (simp_all add: kl_fuse_spec)

lemma kl_fuse_entries:
  assumes "eta \<noteq> 0" and "i < dX + dU"
  shows "j < dX + dU \<Longrightarrow> fst (kl_fuse reg dX dU Cm_t cv_t K_t KB kB Z eta) ! i ! j
           = Some ((Cm_t i j + reg * norm_inf dU dX K_t * eye i j
                    + eta * kl_quadratic_spec dX dU KB Z i j) / eta)"
    and "snd (kl_fuse reg dX dU Cm_t cv_t K_t KB kB Z eta) ! i
           = Some ((cv_t i + eta * kl_linear_spec dX dU KB kB Z i) / eta)"
  using assms by (simp_all add: kl_fuse_spec np_div_def mult.commute)

lemma compute_costs_step_solves:
  assumes inv: "inverse_of dU C Ci"
    and S: "meq dU (dot dU (mT C) C) S"
    and sT: "solves dU solve (mT C)"
    and s: "solves dU solve C"
  shows "\<exists>Z. compute_costs_step solve reg dX dU Cm_t cv_t K_t C KB kB eta
              = Inr (kl_fuse reg dX dU Cm_t cv_t K_t KB kB Z eta)
            \<and> inverse_of dU S Z"
proof -
  from sT obtain Y where Y: "solve (mT C) eye = Inr Y" "meq dU (dot dU (mT C) Y) eye"
    unfolding solves_def meq_def by blast
  from s obtain Z where Z: "solve C Y = Inr Z" "meq dU (dot dU C Z) Y"
    unfolding solves_def meq_def by blast
  have "inverse_of dU (dot dU (mT C) C) Z"
    using inv Y(2) Z(2) by (rule two_solves_inverse)
  then have "inverse_of dU S Z"
    using S inverse_of_cong by blast
  with Y(1) Z(1) show ?thesis
    by (auto simp: compute_costs_step_def)
qed

text \<open>
  C1. Let \<open>eta > 0\<close> and let, at every time step \<open>t < T\<close>, \<open>chol_pol_S[t]\<close> be an
  invertible factor of the fitted covariance, \<open>chol_pol_S[t]\<^sup>T chol_pol_S[t] = pol_S[t]\<close>,
  for which \<open>np.linalg.solve\<close> returns solutions. Then \<open>compute_costs\<close> returns
  \<open>(fCm, fcv)\<close> with, at every time step, \<open>fCm[t] = (Cm[t] + K_regularization *
  \<parallel>K[t]\<parallel>\<^sub>\<infinity> * I + eta * PKLm[t]) / eta\<close> and \<open>fcv[t] = (cv[t] + eta * PKLv[t]) / eta\<close>,
  where \<open>PKLm[t]\<close> is the block matrix and \<open>PKLv[t]\<close> the stacked vector of the
  specification, built from the gain \<open>pol_K[t]\<close>, the bias \<open>pol_k[t]\<close> and the inverse
  \<open>Sinv[t]\<close> of \<open>pol_S[t]\<close>. The factor need not be triangular.
\<close>

theorem compute_costs_kl_fusion:
  assumes eta: "0 < eta"
    and inv: "\<forall>t<T. inverse_of dU (chol_pol_S t) (chol_inv t)"
    and S: "\<forall>t<T. meq dU (dot dU (mT (chol_pol_S t)) (chol_pol_S t)) (pol_S t)"
    and solve: "\<forall>t<T. solves dU solve (mT (chol_pol_S t)) \<and> solves dU solve (chol_pol_S t)"
  shows "\<exists>fCm fcv Sinv.
           compute_costs solve K_regularization T dX dU Cm cv K chol_pol_S pol_K pol_k eta
             = Inr (fCm, fcv)
           \<and> length fCm = T \<and> length fcv = T
           \<and> (\<forall>t<T. inverse_of dU (pol_S t) (Sinv t)
                \<and> (\<forall>i<dX + dU. \<forall>j<dX + dU.
                      fCm ! t ! i ! j
                        = Some ((Cm t i j + K_regularization * norm_inf dU dX (K t) * eye i j
                                 + eta * kl_quadratic_spec dX dU (pol_K t) (Sinv t) i j) / eta))
                \<and> (\<forall>i<dX + dU.
                      fcv ! t ! i
                        = Some ((cv t i + eta * kl_linear_spec dX dU (pol_K t) (pol_k t) (Sinv t) i)
                                / eta)))"
proof -
  let ?step = "\<lambda>t. compute_costs_step solve K_regularization dX dU (Cm t) (cv t) (K t)
                      (chol_pol_S t) (pol_K t) (pol_k t) eta"
  let ?fuse = "\<lambda>t Z. kl_fuse K_regularization dX dU (Cm t) (cv t) (K t) (pol_K t) (pol_k t) Z eta"
  have "\<forall>t. \<exists>Z. t < T \<longrightarrow> ?step t = Inr (?fuse t Z) \<and> inverse_of dU (pol_S t) Z"
    using compute_costs_step_solves inv S solve by blast
  then obtain Sinv where Sinv:
    "\<And>t. t < T \<Longrightarrow> ?step t = Inr (?fuse t (Sinv t)) \<and> inverse_of dU (pol_S t) (Sinv t)"
    by metis
  have loop: "compute_costs_loop ?step [0..<T] = Inr (map (\<lambda>t. ?fuse t (Sinv t)) [0..<T])"
    by (rule compute_costs_loop_map) (simp add: Sinv)
  let ?fCm = "map (\<lambda>t. fst (?fuse t (Sinv t))) [0..<T]"
  let ?fcv = "map (\<lambda>t. snd (?fuse t (Sinv t))) [0..<T]"
  have res: "compute_costs solve K_regularization T dX dU Cm cv K chol_pol_S pol_K pol_k eta
               = Inr (?fCm, ?fcv)"
    by (simp add: compute_costs_def loop comp_def)
  have ne: "eta \<noteq> 0"
    using eta by simp
  have "inverse_of dU (pol_S t) (Sinv t)
        \<and> (\<forall>i<dX + dU. \<forall>j<dX + dU.
              ?fCm ! t ! i ! j
                = Some ((Cm t i j + K_regularization * norm_inf dU dX (K t) * eye i j
                         + eta * kl_quadratic_spec dX dU (pol_K t) (Sinv t) i j) / eta))
        \<and> (\<forall>i<dX + dU.
              ?fcv ! t ! i
                = Some ((cv t i + eta * kl_linear_spec dX dU (pol_K t) (pol_k t) (Sinv t) i) / eta))"
    if "t < T" for t
    using that Sinv [OF that] by (simp add: kl_fuse_entries [OF ne])
  with res show ?thesis
    by (intro exI [of _ ?fCm] exI [of _ ?fcv] exI [of _ Sinv]) simp
qed

text \<open>Evaluation of \<open>compute_costs\<close> on the example data.\<close>

lemmas compute_costs_eval =
  compute_costs_def compute_costs_step_def kl_fuse_def solve_diag_def Let_def np_div_def
  vstack_def hstack_def concatenate_def dot_def dotv_def mT_def eye_def norm_inf_def
  lessThan_1 upt_rec [of 0 "Suc (Suc 0)"] upt_rec [of 1 "Suc (Suc 0)"] numeral_2_eq_2

lemma solves_solve_diag_2: "solves 1 solve_diag (\<lambda>i j. 2)"
  by (simp add: solves_def solve_diag_def dot_def lessThan_1)

lemma compute_costs_example:
  "compute_costs solve_diag (1 / 10) 1 1 1 (\<lambda>t. eye) (\<lambda>t i. 1) (\<lambda>t i j. 5) (\<lambda>t i j. 2)
     (\<lambda>t i j. 3) (\<lambda>t i. 1) 2
   = Inr ([[[Some 3, Some (- 3 / 4)], [Some (- 3 / 4), Some 1]]], [[Some (5 / 4), Some (1 / 4)]])"
  by (simp add: compute_costs_eval)

theorem compute_costs_kl_fusion_witness:
  "(0::real) < 2
   \<and> inverse_of 1 (\<lambda>i j. 2) (\<lambda>i j. 1 / 2)
   \<and> meq 1 (dot 1 (mT (\<lambda>i j. 2)) (\<lambda>i j. 2)) (\<lambda>i j. 4)
   \<and> solves 1 solve_diag (mT (\<lambda>i j. 2)) \<and> solves 1 solve_diag (\<lambda>i j. 2)
   \<and> (\<exists>fCm fcv Sinv.
         compute_costs solve_diag (1 / 10) 1 1 1 (\<lambda>t. eye) (\<lambda>t i. 1) (\<lambda>t i j. 5) (\<lambda>t i j. 2)
           (\<lambda>t i j. 3) (\<lambda>t i. 1) 2 = Inr (fCm, fcv)
         \<and> inverse_of 1 (\<lambda>i j. 4) (Sinv 0)
         \<and> fCm ! 0 ! 0 ! 1
             = Some ((eye 0 1 + 1 / 10 * norm_inf 1 1 (\<lambda>i j. 5) * eye 0 1
                      + 2 * kl_quadratic_spec 1 1 (\<lambda>i j. 3) (Sinv 0) 0 1) / 2)
         \<and> fcv ! 0 ! 1 = Some ((1 + 2 * kl_linear_spec 1 1 (\<lambda>i j. 3) (\<lambda>i. 1) (Sinv 0) 1) / 2))
   \<and> compute_costs solve_diag (1 / 10) 1 1 1 (\<lambda>t. eye) (\<lambda>t i. 1) (\<lambda>t i j. 5) (\<lambda>t i j. 2)
        (\<lambda>t i j. 3) (\<lambda>t i. 1) 2
      = Inr ([[[Some 3, Some (- 3 / 4)], [Some (- 3 / 4), Some 1]]], [[Some (5 / 4), Some (1 / 4)]])"
proof -
  have eta: "(0::real) < 2"
    by simp
  have inv: "inverse_of 1 (\<lambda>i j. 2) (\<lambda>i j. 1 / 2)"
    by (simp add: inverse_of_def dot_def eye_def lessThan_1)
  have S: "meq 1 (dot 1 (mT (\<lambda>i j. 2)) (\<lambda>i j. 2)) (\<lambda>i j. 4)"
    by (simp add: meq_def dot_def mT_def lessThan_1)
  have mT2: "mT (\<lambda>i j. 2) = (\<lambda>i j. 2)"
    by (simp add: mT_def)
  have solve: "solves 1 solve_diag (mT (\<lambda>i j. 2))" "solves 1 solve_diag (\<lambda>i j. 2)"
    using solves_solve_diag_2 by (simp_all add: mT2)
  have "\<exists>fCm fcv Sinv.
         compute_costs solve_diag (1 / 10) 1 1 1 (\<lambda>t. eye) (\<lambda>t i. 1) (\<lambda>t i j. 5) (\<lambda>t i j. 2)
           (\<lambda>t i j. 3) (\<lambda>t i. 1) 2 = Inr (fCm, fcv)
         \<and> inverse_of 1 (\<lambda>i j. 4) (Sinv 0)
         \<and> fCm ! 0 ! 0 ! 1
             = Some ((eye 0 1 + 1 / 10 * norm_inf 1 1 (\<lambda>i j. 5) * eye 0 1
                      + 2 * kl_quadratic_spec 1 1 (\<lambda>i j. 3) (Sinv 0) 0 1) / 2)
         \<and> fcv ! 0 ! 1 = Some ((1 + 2 * kl_linear_spec 1 1 (\<lambda>i j. 3) (\<lambda>i. 1) (Sinv 0) 1) / 2)"
  proof -
    have h_inv: "\<forall>t<1. inverse_of 1 ((\<lambda>t i j. 2) t) ((\<lambda>t i j. 1 / 2) t)"
      using inv by simp
    have h_S: "\<forall>t<1. meq 1 (dot 1 (mT ((\<lambda>t i j. 2) t)) ((\<lambda>t i j. 2) t)) ((\<lambda>t i j. 4) t)"
      using S by simp
    have h_solve: "\<forall>t<1. solves 1 solve_diag (mT ((\<lambda>t i j. 2) t))
                          \<and> solves 1 solve_diag ((\<lambda>t i j. 2) t)"
      using solve by simp
    from compute_costs_kl_fusion [OF eta h_inv h_S h_solve, of "1 / 10" 1 "\<lambda>t. eye" "\<lambda>t i. 1"
        "\<lambda>t i j. 5" "\<lambda>t i j. 3" "\<lambda>t i. 1"]
    show ?thesis
      by fastforce
  qed
  with eta inv S solve compute_costs_example show ?thesis
    by blast
qed

lemma np_div_scale:
  "c \<noteq> 0 \<Longrightarrow> np_div (c * x + y * (c * eta)) (c * eta) = np_div (x + y * eta) eta"
  by (simp add: np_div_def field_simps)

lemma np_div_scale_reg:
  assumes "c \<noteq> 0" and "eta \<noteq> 0"
  shows "np_div (c * x + r + y * (c * eta)) (c * eta)
         = map_option (\<lambda>v. v - (1 - 1 / c) * r / eta) (np_div (x + r + y * eta) eta)"
  using assms by (simp add: np_div_def field_simps)

lemma kl_fuse_scaled_snd:
  "c \<noteq> 0 \<Longrightarrow>
     snd (kl_fuse reg dX dU (\<lambda>i j. c * Cm_t i j) (\<lambda>i. c * cv_t i) K_t KB kB Z (c * eta))
       = snd (kl_fuse reg dX dU Cm_t cv_t K_t KB kB Z eta)"
  by (simp add: kl_fuse_spec np_div_scale)

lemma kl_fuse_scaled_fst:
  assumes "c \<noteq> 0" and "eta \<noteq> 0" and "i < dX + dU" and "j < dX + dU"
  shows "fst (kl_fuse reg dX dU (\<lambda>i j. c * Cm_t i j) (\<lambda>i. c * cv_t i) K_t KB kB Z (c * eta)) ! i ! j
         = map_option (\<lambda>v. v - (1 - 1 / c) * (reg * norm_inf dU dX K_t) / eta * eye i j)
             (fst (kl_fuse reg dX dU Cm_t cv_t K_t KB kB Z eta) ! i ! j)"
  using assms(3,4) np_div_scale_reg [OF assms(1,2), of "Cm_t i j" "reg * norm_inf dU dX K_t * eye i j"]
  by (simp add: kl_fuse_spec eye_def)

lemma kl_fuse_scaled_fst_no_reg:
  assumes "c \<noteq> 0" and "reg * norm_inf dU dX K_t = 0"
  shows "fst (kl_fuse reg dX dU (\<lambda>i j. c * Cm_t i j) (\<lambda>i. c * cv_t i) K_t KB kB Z (c * eta))
         = fst (kl_fuse reg dX dU Cm_t cv_t K_t KB kB Z eta)"
  by (simp add: kl_fuse_spec assms(2) np_div_scale [OF assms(1)])

text \<open>
  C2 (as amended). For \<open>c > 0\<close> and \<open>eta > 0\<close>: if \<open>compute_costs\<close> returns \<open>(fCm, fcv)\<close> for
  \<open>Cm\<close>, \<open>cv\<close> and \<open>eta\<close>, then for \<open>c * Cm\<close>, \<open>c * cv\<close> and \<open>c * eta\<close> it returns the same
  \<open>fcv\<close>, and an \<open>fCm'\<close> that differs from \<open>fCm\<close> by the regulariser alone:
  \<open>fCm'[t] = fCm[t] - (1 - 1/c) * (K_regularization * \<parallel>K[t]\<parallel>\<^sub>\<infinity> / eta) * I\<close>. Where
  \<open>K_regularization * \<parallel>K[t]\<parallel>\<^sub>\<infinity> = 0\<close> at every time step, \<open>fCm\<close> is unchanged as well.
\<close>

theorem compute_costs_scaling:
  assumes c: "0 < c" and eta: "0 < eta"
    and run: "compute_costs solve K_regularization T dX dU Cm cv K chol_pol_S pol_K pol_k eta
                = Inr (fCm, fcv)"
  shows "\<exists>fCm'.
           compute_costs solve K_regularization T dX dU (\<lambda>t i j. c * Cm t i j) (\<lambda>t i. c * cv t i) K
               chol_pol_S pol_K pol_k (c * eta)
             = Inr (fCm', fcv)
           \<and> length fCm' = T
           \<and> (\<forall>t<T. \<forall>i<dX + dU. \<forall>j<dX + dU.
                 fCm' ! t ! i ! j
                   = map_option
                       (\<lambda>v. v - (1 - 1 / c) * (K_regularization * norm_inf dU dX (K t)) / eta
                                  * eye i j)
                       (fCm ! t ! i ! j))
           \<and> ((\<forall>t<T. K_regularization * norm_inf dU dX (K t) = 0) \<longrightarrow> fCm' = fCm)"
proof -
  let ?step = "\<lambda>t. compute_costs_step solve K_regularization dX dU (Cm t) (cv t) (K t)
                      (chol_pol_S t) (pol_K t) (pol_k t) eta"
  let ?step' = "\<lambda>t. compute_costs_step solve K_regularization dX dU (\<lambda>i j. c * Cm t i j)
                       (\<lambda>i. c * cv t i) (K t) (chol_pol_S t) (pol_K t) (pol_k t) (c * eta)"
  let ?fuse = "\<lambda>t Z. kl_fuse K_regularization dX dU (Cm t) (cv t) (K t) (pol_K t) (pol_k t) Z eta"
  let ?fuse' = "\<lambda>t Z. kl_fuse K_regularization dX dU (\<lambda>i j. c * Cm t i j) (\<lambda>i. c * cv t i) (K t)
                         (pol_K t) (pol_k t) Z (c * eta)"
  have c0: "c \<noteq> 0" and eta0: "eta \<noteq> 0"
    using c eta by simp_all
  from run obtain rs where loop: "compute_costs_loop ?step [0..<T] = Inr rs"
    and fCm: "fCm = map fst rs" and fcv: "fcv = map snd rs"
    by (auto simp: compute_costs_def split: sum.splits)
  from compute_costs_loop_Inr [OF loop]
  have len: "length rs = T" and steps: "\<And>t. t < T \<Longrightarrow> ?step t = Inr (rs ! t)"
    by simp_all
  have "\<forall>t. \<exists>Z. t < T \<longrightarrow> rs ! t = ?fuse t Z \<and> ?step' t = Inr (?fuse' t Z)"
  proof (intro allI)
    fix t
    show "\<exists>Z. t < T \<longrightarrow> rs ! t = ?fuse t Z \<and> ?step' t = Inr (?fuse' t Z)"
    proof (cases "t < T")
      case True
      from steps [OF True] obtain Y Z where "solve (mT (chol_pol_S t)) eye = Inr Y"
        "solve (chol_pol_S t) Y = Inr Z" "rs ! t = ?fuse t Z"
        unfolding compute_costs_step_Inr_iff by blast
      then show ?thesis
        by (auto simp: compute_costs_step_def)
    qed simp
  qed
  then obtain Zf where Zf:
    "\<And>t. t < T \<Longrightarrow> rs ! t = ?fuse t (Zf t) \<and> ?step' t = Inr (?fuse' t (Zf t))"
    by metis
  have loop': "compute_costs_loop ?step' [0..<T] = Inr (map (\<lambda>t. ?fuse' t (Zf t)) [0..<T])"
    by (rule compute_costs_loop_map) (simp add: Zf)
  let ?fCm' = "map (\<lambda>t. fst (?fuse' t (Zf t))) [0..<T]"
  have "map (\<lambda>t. snd (?fuse' t (Zf t))) [0..<T] = fcv"
    unfolding fcv using len Zf by (intro nth_equalityI) (simp_all add: kl_fuse_scaled_snd [OF c0])
  then have res: "compute_costs solve K_regularization T dX dU (\<lambda>t i j. c * Cm t i j)
      (\<lambda>t i. c * cv t i) K chol_pol_S pol_K pol_k (c * eta) = Inr (?fCm', fcv)"
    by (simp add: compute_costs_def loop' comp_def)
  have entries: "?fCm' ! t ! i ! j
      = map_option (\<lambda>v. v - (1 - 1 / c) * (K_regularization * norm_inf dU dX (K t)) / eta * eye i j)
          (fCm ! t ! i ! j)"
    if "t < T" "i < dX + dU" "j < dX + dU" for t i j
    using that len Zf [OF that(1)] by (simp add: fCm kl_fuse_scaled_fst [OF c0 eta0])
  have same: "?fCm' = fCm" if "\<forall>t<T. K_regularization * norm_inf dU dX (K t) = 0"
    unfolding fCm using len Zf that
    by (intro nth_equalityI) (simp_all add: kl_fuse_scaled_fst_no_reg [OF c0])
  from res entries same show ?thesis
    by (intro exI [of _ ?fCm']) simp
qed


theorem compute_costs_scaling_witness:
  "(0::real) < 2
   \<and> compute_costs solve_diag (1 / 10) 1 1 1 (\<lambda>t. eye) (\<lambda>t i. 1) (\<lambda>t i j. 5) (\<lambda>t i j. 2)
        (\<lambda>t i j. 3) (\<lambda>t i. 1) 2
      = Inr ([[[Some 3, Some (- 3 / 4)], [Some (- 3 / 4), Some 1]]], [[Some (5 / 4), Some (1 / 4)]])
   \<and> (\<exists>fCm'.
         compute_costs solve_diag (1 / 10) 1 1 1 (\<lambda>t i j. 2 * eye i j) (\<lambda>t i. 2 * 1) (\<lambda>t i j. 5)
           (\<lambda>t i j. 2) (\<lambda>t i j. 3) (\<lambda>t i. 1) (2 * 2)
         = Inr (fCm', [[Some (5 / 4), Some (1 / 4)]])
         \<and> fCm' ! 0 ! 0 ! 0 = Some (3 - (1 - 1 / 2) * (1 / 10 * norm_inf 1 1 (\<lambda>i j. 5)) / 2 * eye 0 0)
         \<and> fCm' ! 0 ! 0 ! 1 = Some (- 3 / 4 - (1 - 1 / 2) * (1 / 10 * norm_inf 1 1 (\<lambda>i j. 5)) / 2 * eye 0 1))"
proof -
  have c: "(0::real) < 2"
    by simp
  have "\<exists>fCm'.
         compute_costs solve_diag (1 / 10) 1 1 1 (\<lambda>t i j. 2 * eye i j) (\<lambda>t i. 2 * 1) (\<lambda>t i j. 5)
           (\<lambda>t i j. 2) (\<lambda>t i j. 3) (\<lambda>t i. 1) (2 * 2)
         = Inr (fCm', [[Some (5 / 4), Some (1 / 4)]])
         \<and> fCm' ! 0 ! 0 ! 0 = Some (3 - (1 - 1 / 2) * (1 / 10 * norm_inf 1 1 (\<lambda>i j. 5)) / 2 * eye 0 0)
         \<and> fCm' ! 0 ! 0 ! 1 = Some (- 3 / 4 - (1 - 1 / 2) * (1 / 10 * norm_inf 1 1 (\<lambda>i j. 5)) / 2 * eye 0 1)"
    using compute_costs_scaling [OF c c compute_costs_example]
    by fastforce
  with c compute_costs_example show ?thesis
    by blast
qed

text \<open>
  C2 as stated fails. One time step, \<open>dX = dU = 1\<close>, \<open>K_regularization = 0.1\<close>,
  \<open>K = [[5]]\<close>, \<open>chol_pol_S = [[2]]\<close>, \<open>pol_K = [[3]]\<close>, \<open>pol_k = [1]\<close>, \<open>Cm\<close> the identity,
  \<open>cv = [1, 1]\<close> and \<open>eta = 2\<close> give \<open>fCm = [[3, -3/4], [-3/4, 1]]\<close>; with \<open>Cm\<close>, \<open>cv\<close> and
  \<open>eta\<close> doubled, \<open>fCm = [[23/8, -3/4], [-3/4, 7/8]]\<close>. \<open>fcv\<close> is \<open>[5/4, 1/4]\<close> in both.
\<close>

theorem compute_costs_not_homogeneous:
  "(0::real) < 2
   \<and> compute_costs solve_diag (1 / 10) 1 1 1 (\<lambda>t. eye) (\<lambda>t i. 1) (\<lambda>t i j. 5) (\<lambda>t i j. 2)
        (\<lambda>t i j. 3) (\<lambda>t i. 1) 2
      = Inr ([[[Some 3, Some (- 3 / 4)], [Some (- 3 / 4), Some 1]]], [[Some (5 / 4), Some (1 / 4)]])
   \<and> compute_costs solve_diag (1 / 10) 1 1 1 (\<lambda>t i j. 2 * eye i j) (\<lambda>t i. 2 * 1) (\<lambda>t i j. 5)
        (\<lambda>t i j. 2) (\<lambda>t i j. 3) (\<lambda>t i. 1) (2 * 2)
      = Inr ([[[Some (23 / 8), Some (- 3 / 4)], [Some (- 3 / 4), Some (7 / 8)]]],
             [[Some (5 / 4), Some (1 / 4)]])"
  by (simp add: compute_costs_eval)

end
